theory Spec2Isabelle
  imports Complex_Main "HOL-Library.Multiset"
begin

section \<open>Campaign code generator\<close>

text \<open>
  \<^verbatim>\<open>generateUniqueCampaignCode\<close> draws six characters from a 36-letter alphabet.
  \<^verbatim>\<open>Math.random()\<close> is the runtime's; the model takes the sequence of its results as
  the parameter \<open>rnd\<close> (\<open>rnd i\<close> is the value drawn in iteration \<open>i\<close>), as a real number,
  and multiplies exactly. (In double precision the largest value below 1, times 36, still
  rounds below 36, so the index has the same range there.)
  \<^verbatim>\<open>String.prototype.charAt\<close> returns the empty string outside the string.
\<close>

definition chars :: string where
  "chars = ''ABCDEFGHIJKLMNOPQRSTUVWXYZ0123456789''"

definition charAt :: "string \<Rightarrow> int \<Rightarrow> string" where
  "charAt s i = (if 0 \<le> i \<and> i < int (length s) then [s ! nat i] else [])"

function gen_loop :: "(nat \<Rightarrow> real) \<Rightarrow> nat \<Rightarrow> string \<Rightarrow> string" where
  "gen_loop rnd i code =
     (if i < 6
      then gen_loop rnd (i + 1) (code @ charAt chars \<lfloor>rnd i * real (length chars)\<rfloor>)
      else code)"
  by pat_completeness auto
termination
  by (relation "measure (\<lambda>(rnd, i, code). 6 - i)") auto

declare gen_loop.simps [simp del]

definition generateUniqueCampaignCode :: "(nat \<Rightarrow> real) \<Rightarrow> string" where
  "generateUniqueCampaignCode rnd = gen_loop rnd 0 ''TF-''"

text \<open>The character class \<open>[A-Z0-9]\<close> and the pattern \<open>^TF-[A-Z0-9]{6}$\<close>.\<close>

definition upper_or_digit :: "char \<Rightarrow> bool" where
  "upper_or_digit c =
     (let n = (of_char c :: nat) in (65 \<le> n \<and> n \<le> 90) \<or> (48 \<le> n \<and> n \<le> 57))"

definition matches_code_pattern :: "string \<Rightarrow> bool" where
  "matches_code_pattern s =
     (take 3 s = ''TF-'' \<and> length (drop 3 s) = 6 \<and> list_all upper_or_digit (drop 3 s))"

section \<open>Data model\<close>

text \<open>
  The rows of the tables the handlers touch, with the columns the handlers name.
  Identifiers are text, as they arrive in a path or a body. The data store assigns the
  identifier and the timestamp of a new row; the model takes both from a counter.
  Columns a request body may carry beyond those the handlers name are kept as text
  (\<open>c_body\<close>, \<open>r_body\<close>, \<open>v_body\<close>).

  The body's \<^verbatim>\<open>amount\<close> is not validated, and it meets the campaign's
  \<^verbatim>\<open>collected_amount\<close> in a JavaScript \<^verbatim>\<open>+\<close>. Both are therefore JavaScript values:
  \<open>Num x\<close> is a finite number (a double, as the real number it is), \<open>Infinity s\<close>
  the infinity of sign \<open>s\<close>, \<open>Compound t\<close> an array or object with JSON text \<open>t\<close>.
  The store keeps a value as it is written; where the real store would refuse a value,
  that is a failed call (see \<open>faults\<close> below).
\<close>

datatype jsval =
    Undefined
  | Null
  | Bool bool
  | Num real
  | NaN
  | Infinity bool
  | Str string
  | Compound string

type_synonym ident = string

record user_row =
  u_id :: ident
  is_ngo :: bool

record campaign =
  c_id :: ident
  unique_code :: string
  created_by :: ident
  collected_amount :: jsval
  c_verified :: bool
  c_created_at :: nat
  c_body :: string

record donation =
  d_id :: ident
  campaign_id :: ident
  amount :: jsval
  tip_amount :: int
  donor_name :: "string option"
  donor_id :: "ident option"
  d_created_at :: nat

record review =
  r_id :: ident
  r_created_at :: nat
  r_body :: string

record ngo_verification =
  v_id :: ident
  user_id :: ident
  v_verified :: bool
  requested_at :: nat
  v_body :: string

text \<open>The error object of the store client: \<^verbatim>\<open>error.code\<close> and \<^verbatim>\<open>error.message\<close>.\<close>

record store_error =
  e_code :: string
  e_message :: string

text \<open>
  The result of \<^verbatim>\<open>supabase.auth.getUser(token)\<close>: \<^verbatim>\<open>data.user\<close> (here the user's id,
  the only attribute the handlers read) and \<^verbatim>\<open>error\<close>. The identity provider is a
  parameter of every handler.
\<close>

record auth_result =
  au_user :: "ident option"
  au_error :: "store_error option"

type_synonym idp = "string \<Rightarrow> auth_result"

text \<open>Every call a handler makes to the client, in the order made, with its arguments.\<close>

datatype store_call =
    AuthGetUser string
  | SelectUserById ident
  | SelectCampaigns
  | SelectCampaignById ident
  | SelectCampaignsByCreator ident
  | InsertCampaign string ident string
  | SelectDonationsByDonor ident
  | InsertDonation ident jsval int "string option" "ident option"
  | SelectCollectedAmount ident
  | UpdateCollectedAmount ident jsval
  | SelectReviews nat
  | SelectVerificationByUser ident
  | InsertVerification string ident
  | UpdateVerification ident bool
  | UpdateUserIsNgo ident bool

fun is_write :: "store_call \<Rightarrow> bool" where
  "is_write (InsertCampaign b u c) = True"
| "is_write (InsertDonation c a t n d) = True"
| "is_write (UpdateCollectedAmount c v) = True"
| "is_write (InsertVerification b u) = True"
| "is_write (UpdateVerification i v) = True"
| "is_write (UpdateUserIsNgo u v) = True"
| "is_write other = False"

text \<open>
  The data store and what the handlers can observe of it. \<open>faults\<close> is the store's
  behaviour towards the coming calls: each call to a table takes the head, and
  \<open>Some e\<close> makes that call fail with \<open>e\<close> and change nothing (no entry: the call
  succeeds). \<open>calls\<close> records the calls made.
\<close>

record world =
  users :: "user_row list"
  campaigns :: "campaign list"
  donations :: "donation list"
  reviews :: "review list"
  ngo_verifications :: "ngo_verification list"
  seq :: nat
  faults :: "store_error option list"
  calls :: "store_call list"

text \<open>
  A response: the status (\<^verbatim>\<open>res.json\<close> alone answers 200) and the JSON body.
  \<open>Error m\<close> is the body \<^verbatim>\<open>{ error: m }\<close>.
\<close>

datatype json_body =
    Error string
  | UserBody user_row
  | CampaignBody campaign
  | CampaignList "campaign list"
  | DonationBody donation
  | DonationList "donation list"
  | ReviewList "review list"
  | VerificationBody "ngo_verification option"

record response =
  status :: nat
  body :: json_body

definition json :: "nat \<Rightarrow> json_body \<Rightarrow> response" where
  "json st b = \<lparr>status = st, body = b\<rparr>"

section \<open>The store client\<close>

text \<open>
  \<open>from_table c q w\<close> is one awaited query on a table: the call \<open>c\<close> is recorded, the
  store's next fault decides whether it fails, and otherwise \<open>q\<close> computes the data and
  the new tables.
\<close>

definition from_table ::
  "store_call \<Rightarrow> (world \<Rightarrow> (store_error + 'a) \<times> world) \<Rightarrow> world
     \<Rightarrow> (store_error + 'a) \<times> world" where
  "from_table c q w =
     (let w1 = w\<lparr>calls := calls w @ [c]\<rparr> in
      case faults w1 of
        [] \<Rightarrow> q w1
      | None # fs \<Rightarrow> q (w1\<lparr>faults := fs\<rparr>)
      | Some e # fs \<Rightarrow> (Inl e, w1\<lparr>faults := fs\<rparr>))"

text \<open>
  \<^verbatim>\<open>.single()\<close> wants exactly one row and otherwise fails with the client's code
  \<^verbatim>\<open>PGRST116\<close>.
\<close>

definition no_single_row :: store_error where
  "no_single_row =
     \<lparr>e_code = ''PGRST116'',
      e_message = ''JSON object requested, multiple (or no) rows returned''\<rparr>"

fun single :: "'a list \<Rightarrow> store_error + 'a" where
  "single [x] = Inr x"
| "single xs = Inl no_single_row"

text \<open>\<^verbatim>\<open>.order(column, { ascending: false })\<close>: the rows, largest key first.\<close>

definition order_desc :: "('a \<Rightarrow> nat) \<Rightarrow> 'a list \<Rightarrow> 'a list" where
  "order_desc key rows = rev (sort_key key rows)"

definition auth_getUser :: "idp \<Rightarrow> string \<Rightarrow> world \<Rightarrow> auth_result \<times> world" where
  "auth_getUser provider token w = (provider token, w\<lparr>calls := calls w @ [AuthGetUser token]\<rparr>)"

definition select_user_by_id :: "ident \<Rightarrow> world \<Rightarrow> (store_error + user_row) \<times> world" where
  "select_user_by_id uid =
     from_table (SelectUserById uid)
       (\<lambda>w. (single (filter (\<lambda>u. u_id u = uid) (users w)), w))"

definition select_campaigns :: "world \<Rightarrow> (store_error + campaign list) \<times> world" where
  "select_campaigns =
     from_table SelectCampaigns (\<lambda>w. (Inr (order_desc c_created_at (campaigns w)), w))"

definition select_campaign_by_id :: "ident \<Rightarrow> world \<Rightarrow> (store_error + campaign) \<times> world" where
  "select_campaign_by_id cid =
     from_table (SelectCampaignById cid)
       (\<lambda>w. (single (filter (\<lambda>c. c_id c = cid) (campaigns w)), w))"

definition select_campaigns_by_creator ::
  "ident \<Rightarrow> world \<Rightarrow> (store_error + campaign list) \<times> world" where
  "select_campaigns_by_creator uid =
     from_table (SelectCampaignsByCreator uid)
       (\<lambda>w. (Inr (order_desc c_created_at (filter (\<lambda>c. created_by c = uid) (campaigns w))), w))"

text \<open>The identifier of the \<open>n\<close>-th row the store creates: \<open>n\<close> in decimal.\<close>

definition digit :: "nat \<Rightarrow> char" where
  "digit d = char_of (48 + d)"

function decimal :: "nat \<Rightarrow> string" where
  "decimal n = (if n div 10 = 0 then [digit n] else decimal (n div 10) @ [digit (n mod 10)])"
  by pat_completeness auto
termination
  by (relation "measure (\<lambda>n. n)") auto

declare decimal.simps [simp del]

text \<open>
  An insert followed by \<^verbatim>\<open>.select().single()\<close> returns the new row. The store gives it
  its id and creation time; a new campaign starts with nothing collected and unverified.
\<close>

definition insert_campaign ::
  "string \<Rightarrow> ident \<Rightarrow> string \<Rightarrow> world \<Rightarrow> (store_error + campaign) \<times> world" where
  "insert_campaign req_body uid ucode =
     from_table (InsertCampaign req_body uid ucode)
       (\<lambda>w. let row = \<lparr>c_id = decimal (seq w), unique_code = ucode, created_by = uid,
                         collected_amount = Num 0, c_verified = False, c_created_at = seq w,
                         c_body = req_body\<rparr>
             in (Inr row, w\<lparr>campaigns := campaigns w @ [row], seq := seq w + 1\<rparr>))"

definition select_donations_by_donor ::
  "ident \<Rightarrow> world \<Rightarrow> (store_error + donation list) \<times> world" where
  "select_donations_by_donor uid =
     from_table (SelectDonationsByDonor uid)
       (\<lambda>w. (Inr (order_desc d_created_at (filter (\<lambda>d. donor_id d = Some uid) (donations w))), w))"

definition insert_donation ::
  "ident \<Rightarrow> jsval \<Rightarrow> int \<Rightarrow> string option \<Rightarrow> ident option \<Rightarrow> world
     \<Rightarrow> (store_error + donation) \<times> world" where
  "insert_donation cid amt tip dname did =
     from_table (InsertDonation cid amt tip dname did)
       (\<lambda>w. let row = \<lparr>d_id = decimal (seq w), campaign_id = cid, amount = amt, tip_amount = tip,
                         donor_name = dname, donor_id = did, d_created_at = seq w\<rparr>
             in (Inr row, w\<lparr>donations := donations w @ [row], seq := seq w + 1\<rparr>))"

definition select_collected_amount :: "ident \<Rightarrow> world \<Rightarrow> (store_error + jsval) \<times> world" where
  "select_collected_amount cid =
     from_table (SelectCollectedAmount cid)
       (\<lambda>w. (single (map collected_amount (filter (\<lambda>c. c_id c = cid) (campaigns w))), w))"

text \<open>An update without \<^verbatim>\<open>.select()\<close> returns no data: \<open>Inr ()\<close> unless it fails.\<close>

definition update_collected_amount ::
  "ident \<Rightarrow> jsval \<Rightarrow> world \<Rightarrow> (store_error + unit) \<times> world" where
  "update_collected_amount cid v =
     from_table (UpdateCollectedAmount cid v)
       (\<lambda>w. (Inr (),
              w\<lparr>campaigns :=
                   map (\<lambda>c. if c_id c = cid then c\<lparr>collected_amount := v\<rparr> else c)
                     (campaigns w)\<rparr>))"

definition select_reviews :: "nat \<Rightarrow> world \<Rightarrow> (store_error + review list) \<times> world" where
  "select_reviews n =
     from_table (SelectReviews n) (\<lambda>w. (Inr (take n (order_desc r_created_at (reviews w))), w))"

definition select_verification_by_user ::
  "ident \<Rightarrow> world \<Rightarrow> (store_error + ngo_verification) \<times> world" where
  "select_verification_by_user uid =
     from_table (SelectVerificationByUser uid)
       (\<lambda>w. (single (filter (\<lambda>v. user_id v = uid) (ngo_verifications w)), w))"

definition insert_verification ::
  "string \<Rightarrow> ident \<Rightarrow> world \<Rightarrow> (store_error + ngo_verification) \<times> world" where
  "insert_verification req_body uid =
     from_table (InsertVerification req_body uid)
       (\<lambda>w. let row = \<lparr>v_id = decimal (seq w), user_id = uid, v_verified = False,
                         requested_at = seq w, v_body = req_body\<rparr>
             in (Inr row, w\<lparr>ngo_verifications := ngo_verifications w @ [row],
                            seq := seq w + 1\<rparr>))"

text \<open>An update followed by \<^verbatim>\<open>.select().single()\<close> returns the rows it changed.\<close>

definition update_verification ::
  "ident \<Rightarrow> bool \<Rightarrow> world \<Rightarrow> (store_error + ngo_verification) \<times> world" where
  "update_verification vid flag =
     from_table (UpdateVerification vid flag)
       (\<lambda>w. let rows = map (\<lambda>v. if v_id v = vid then v\<lparr>v_verified := flag\<rparr> else v)
                          (ngo_verifications w)
             in (single (filter (\<lambda>v. v_id v = vid) rows), w\<lparr>ngo_verifications := rows\<rparr>))"

definition update_user_is_ngo ::
  "ident \<Rightarrow> bool \<Rightarrow> world \<Rightarrow> (store_error + unit) \<times> world" where
  "update_user_is_ngo uid flag =
     from_table (UpdateUserIsNgo uid flag)
       (\<lambda>w. (Inr (),
              w\<lparr>users := map (\<lambda>u. if u_id u = uid then u\<lparr>is_ngo := flag\<rparr> else u) (users w)\<rparr>))"

section \<open>Request handlers\<close>

text \<open>
  \<^verbatim>\<open>authHeader.replace('Bearer ', '')\<close>: the first occurrence of the pattern, wherever
  it is, is replaced.
\<close>

fun replace_first :: "string \<Rightarrow> string \<Rightarrow> string \<Rightarrow> string" where
  "replace_first pat rep [] = (if pat = [] then rep else [])"
| "replace_first pat rep (c # cs) =
     (if take (length pat) (c # cs) = pat then rep @ drop (length pat) (c # cs)
      else c # replace_first pat rep cs)"

definition unauthorized :: response where
  "unauthorized = json 401 (Error ''Unauthorized'')"

text \<open>
  Each handler takes the identity provider, what it reads of the request (the
  \<^verbatim>\<open>Authorization\<close> header, absent or a string; path parameters; body fields) and the
  world, and returns the response and the world after it. \<^verbatim>\<open>!authHeader\<close> holds of an
  absent header and of the empty string.
\<close>

definition get_auth_user :: "idp \<Rightarrow> string option \<Rightarrow> world \<Rightarrow> response \<times> world" where
  "get_auth_user provider authHeader w =
     (case authHeader of
        None \<Rightarrow> (unauthorized, w)
      | Some h \<Rightarrow>
          if h = [] then (unauthorized, w)
          else
            let token = replace_first ''Bearer '' [] h in
            case auth_getUser provider token w of (r, w1) \<Rightarrow>
              (case (au_error r, au_user r) of
                 (None, Some uid) \<Rightarrow>
                   (case select_user_by_id uid w1 of
                      (Inl e, w2) \<Rightarrow> (json 404 (Error ''User not found''), w2)
                    | (Inr u, w2) \<Rightarrow> (json 200 (UserBody u), w2))
               | other \<Rightarrow> (unauthorized, w1)))"

definition get_campaigns :: "world \<Rightarrow> response \<times> world" where
  "get_campaigns w =
     (case select_campaigns w of
        (Inl e, w1) \<Rightarrow> (json 500 (Error (e_message e)), w1)
      | (Inr cs, w1) \<Rightarrow> (json 200 (CampaignList cs), w1))"

definition get_campaign_by_id :: "string \<Rightarrow> world \<Rightarrow> response \<times> world" where
  "get_campaign_by_id param_id w =
     (case select_campaign_by_id param_id w of
        (Inl e, w1) \<Rightarrow> (json 404 (Error ''Campaign not found''), w1)
      | (Inr c, w1) \<Rightarrow> (json 200 (CampaignBody c), w1))"

definition get_campaigns_my :: "idp \<Rightarrow> string option \<Rightarrow> world \<Rightarrow> response \<times> world" where
  "get_campaigns_my provider authHeader w =
     (case authHeader of
        None \<Rightarrow> (unauthorized, w)
      | Some h \<Rightarrow>
          if h = [] then (unauthorized, w)
          else
            let token = replace_first ''Bearer '' [] h in
            case auth_getUser provider token w of (r, w1) \<Rightarrow>
              (case (au_error r, au_user r) of
                 (None, Some uid) \<Rightarrow>
                   (case select_campaigns_by_creator uid w1 of
                      (Inl e, w2) \<Rightarrow> (json 500 (Error (e_message e)), w2)
                    | (Inr cs, w2) \<Rightarrow> (json 200 (CampaignList cs), w2))
               | other \<Rightarrow> (unauthorized, w1)))"

text \<open>
  \<^verbatim>\<open>POST /api/campaigns\<close> draws the code after authentication and inserts the body with
  \<^verbatim>\<open>created_by\<close> and \<^verbatim>\<open>unique_code\<close> set. The note it then writes to the console for
  a medical campaign changes neither the response nor the store and is left out.
\<close>

definition post_campaigns ::
  "idp \<Rightarrow> (nat \<Rightarrow> real) \<Rightarrow> string option \<Rightarrow> string \<Rightarrow> world \<Rightarrow> response \<times> world" where
  "post_campaigns provider rnd authHeader req_body w =
     (case authHeader of
        None \<Rightarrow> (unauthorized, w)
      | Some h \<Rightarrow>
          if h = [] then (unauthorized, w)
          else
            let token = replace_first ''Bearer '' [] h in
            case auth_getUser provider token w of (r, w1) \<Rightarrow>
              (case (au_error r, au_user r) of
                 (None, Some uid) \<Rightarrow>
                   (let uniqueCode = generateUniqueCampaignCode rnd in
                    case insert_campaign req_body uid uniqueCode w1 of
                      (Inl e, w2) \<Rightarrow> (json 500 (Error (e_message e)), w2)
                    | (Inr c, w2) \<Rightarrow> (json 200 (CampaignBody c), w2))
               | other \<Rightarrow> (unauthorized, w1)))"

definition get_donations_my :: "idp \<Rightarrow> string option \<Rightarrow> world \<Rightarrow> response \<times> world" where
  "get_donations_my provider authHeader w =
     (case authHeader of
        None \<Rightarrow> (unauthorized, w)
      | Some h \<Rightarrow>
          if h = [] then (unauthorized, w)
          else
            let token = replace_first ''Bearer '' [] h in
            case auth_getUser provider token w of (r, w1) \<Rightarrow>
              (case (au_error r, au_user r) of
                 (None, Some uid) \<Rightarrow>
                   (case select_donations_by_donor uid w1 of
                      (Inl e, w2) \<Rightarrow> (json 500 (Error (e_message e)), w2)
                    | (Inr ds, w2) \<Rightarrow> (json 200 (DonationList ds), w2))
               | other \<Rightarrow> (unauthorized, w1)))"

text \<open>
  \<^verbatim>\<open>POST /api/donations\<close>. The donor is resolved only when a header is present, and
  only \<^verbatim>\<open>data.user\<close> of the provider's answer is read (\<^verbatim>\<open>user?.id\<close>).
  \<open>or_zero\<close> is \<^verbatim>\<open>tipAmount || 0\<close>: 0 for an absent tip and for the tip 0. \<open>resolve_donor\<close>
  is the block that sets \<^verbatim>\<open>donorId\<close>. \<open>js_add\<close> is JavaScript's \<^verbatim>\<open>+\<close>, the runtime's, on
  the two values of \<^verbatim>\<open>campaign.collected_amount + amount\<close>: a parameter, as the identity
  provider is. The results of the campaign read and of the
  update are not inspected beyond \<^verbatim>\<open>if (campaign)\<close>.
\<close>

definition or_zero :: "int option \<Rightarrow> int" where
  "or_zero x = (case x of None \<Rightarrow> 0 | Some n \<Rightarrow> if n = 0 then 0 else n)"

definition resolve_donor :: "idp \<Rightarrow> string option \<Rightarrow> world \<Rightarrow> ident option \<times> world" where
  "resolve_donor provider authHeader w =
     (case authHeader of
        None \<Rightarrow> (None, w)
      | Some h \<Rightarrow>
          if h = [] then (None, w)
          else
            let token = replace_first ''Bearer '' [] h in
            case auth_getUser provider token w of (r, w1) \<Rightarrow> (au_user r, w1))"

definition post_donations ::
  "idp \<Rightarrow> (jsval \<Rightarrow> jsval \<Rightarrow> jsval) \<Rightarrow> string option \<Rightarrow> ident \<Rightarrow> jsval \<Rightarrow> int option
     \<Rightarrow> string option \<Rightarrow> world \<Rightarrow> response \<times> world" where
  "post_donations provider js_add authHeader campaignId amt tipAmount donorName w =
     (case resolve_donor provider authHeader w of (donorId, w1) \<Rightarrow>
        (case insert_donation campaignId amt (or_zero tipAmount) donorName donorId w1 of
           (Inl donationError, w2) \<Rightarrow> (json 500 (Error (e_message donationError)), w2)
         | (Inr donation, w2) \<Rightarrow>
             (case select_collected_amount campaignId w2 of
                (Inl e, w3) \<Rightarrow> (json 200 (DonationBody donation), w3)
              | (Inr collected, w3) \<Rightarrow>
                  (case update_collected_amount campaignId (js_add collected amt) w3 of
                     (u, w4) \<Rightarrow> (json 200 (DonationBody donation), w4)))))"

definition get_reviews :: "world \<Rightarrow> response \<times> world" where
  "get_reviews w =
     (case select_reviews 10 w of
        (Inl e, w1) \<Rightarrow> (json 500 (Error (e_message e)), w1)
      | (Inr rs, w1) \<Rightarrow> (json 200 (ReviewList rs), w1))"

text \<open>
  \<^verbatim>\<open>GET /api/ngo-verifications/my\<close> answers a missing row (code \<^verbatim>\<open>PGRST116\<close>) with
  the null data of the failed query.
\<close>

definition get_ngo_verifications_my ::
  "idp \<Rightarrow> string option \<Rightarrow> world \<Rightarrow> response \<times> world" where
  "get_ngo_verifications_my provider authHeader w =
     (case authHeader of
        None \<Rightarrow> (unauthorized, w)
      | Some h \<Rightarrow>
          if h = [] then (unauthorized, w)
          else
            let token = replace_first ''Bearer '' [] h in
            case auth_getUser provider token w of (r, w1) \<Rightarrow>
              (case (au_error r, au_user r) of
                 (None, Some uid) \<Rightarrow>
                   (case select_verification_by_user uid w1 of
                      (Inl e, w2) \<Rightarrow>
                        if e_code e \<noteq> ''PGRST116'' then (json 500 (Error (e_message e)), w2)
                        else (json 200 (VerificationBody None), w2)
                    | (Inr v, w2) \<Rightarrow> (json 200 (VerificationBody (Some v)), w2))
               | other \<Rightarrow> (unauthorized, w1)))"

definition post_ngo_verifications ::
  "idp \<Rightarrow> string option \<Rightarrow> string \<Rightarrow> world \<Rightarrow> response \<times> world" where
  "post_ngo_verifications provider authHeader req_body w =
     (case authHeader of
        None \<Rightarrow> (unauthorized, w)
      | Some h \<Rightarrow>
          if h = [] then (unauthorized, w)
          else
            let token = replace_first ''Bearer '' [] h in
            case auth_getUser provider token w of (r, w1) \<Rightarrow>
              (case (au_error r, au_user r) of
                 (None, Some uid) \<Rightarrow>
                   (case insert_verification req_body uid w1 of
                      (Inl e, w2) \<Rightarrow> (json 500 (Error (e_message e)), w2)
                    | (Inr v, w2) \<Rightarrow> (json 200 (VerificationBody (Some v)), w2))
               | other \<Rightarrow> (unauthorized, w1)))"

definition patch_admin_ngo_verifications ::
  "string \<Rightarrow> bool \<Rightarrow> world \<Rightarrow> response \<times> world" where
  "patch_admin_ngo_verifications param_id verified w =
     (case update_verification param_id verified w of
        (Inl e, w1) \<Rightarrow> (json 500 (Error (e_message e)), w1)
      | (Inr verification, w1) \<Rightarrow>
          if verified
          then (case update_user_is_ngo (user_id verification) True w1 of
                  (u, w2) \<Rightarrow> (json 200 (VerificationBody (Some verification)), w2))
          else (json 200 (VerificationBody (Some verification)), w1))"

section \<open>Routing\<close>

text \<open>
  \<^verbatim>\<open>registerRoutes\<close> registers the handlers on the application one after the other. A
  request goes to the first registered route whose method and path pattern match it; none
  of the handlers passes the request on. A path is its list of segments; a pattern
  segment is literal or a parameter (\<^verbatim>\<open>:id\<close>) that matches any non-empty segment.
\<close>

datatype http_method = GET | POST | PATCH

datatype segment = Lit string | Param

datatype route =
    AuthSession | AuthUser
  | CampaignsIndex | CampaignById | CampaignsMy | CampaignsCreate
  | CampaignDonations | DonationsMy | DonationsCreate
  | ReviewsIndex | ReviewsCreate
  | AdminTickets | TicketsCreate | AdminTicketPatch
  | NgoVerificationsMy | NgoVerificationsCreate
  | AdminNgoVerifications | AdminNgoVerificationPatch
  | Stats | SendHospitalVerification | VerifyHospital

definition routes :: "(http_method \<times> segment list \<times> route) list" where
  "routes =
     [(GET, [Lit ''api'', Lit ''auth'', Lit ''session''], AuthSession),
      (GET, [Lit ''api'', Lit ''auth'', Lit ''user''], AuthUser),
      (GET, [Lit ''api'', Lit ''campaigns''], CampaignsIndex),
      (GET, [Lit ''api'', Lit ''campaigns'', Param], CampaignById),
      (GET, [Lit ''api'', Lit ''campaigns'', Lit ''my''], CampaignsMy),
      (POST, [Lit ''api'', Lit ''campaigns''], CampaignsCreate),
      (GET, [Lit ''api'', Lit ''campaigns'', Param, Lit ''donations''], CampaignDonations),
      (GET, [Lit ''api'', Lit ''donations'', Lit ''my''], DonationsMy),
      (POST, [Lit ''api'', Lit ''donations''], DonationsCreate),
      (GET, [Lit ''api'', Lit ''reviews''], ReviewsIndex),
      (POST, [Lit ''api'', Lit ''reviews''], ReviewsCreate),
      (GET, [Lit ''api'', Lit ''admin'', Lit ''tickets''], AdminTickets),
      (POST, [Lit ''api'', Lit ''tickets''], TicketsCreate),
      (PATCH, [Lit ''api'', Lit ''admin'', Lit ''tickets'', Param], AdminTicketPatch),
      (GET, [Lit ''api'', Lit ''ngo-verifications'', Lit ''my''], NgoVerificationsMy),
      (POST, [Lit ''api'', Lit ''ngo-verifications''], NgoVerificationsCreate),
      (GET, [Lit ''api'', Lit ''admin'', Lit ''ngo-verifications''], AdminNgoVerifications),
      (PATCH, [Lit ''api'', Lit ''admin'', Lit ''ngo-verifications'', Param],
         AdminNgoVerificationPatch),
      (GET, [Lit ''api'', Lit ''stats''], Stats),
      (POST, [Lit ''api'', Lit ''send-hospital-verification''], SendHospitalVerification),
      (GET, [Lit ''api'', Lit ''verify-hospital''], VerifyHospital)]"

fun match_path :: "segment list \<Rightarrow> string list \<Rightarrow> string list option" where
  "match_path [] [] = Some []"
| "match_path (Lit s # ps) (x # xs) = (if s = x then match_path ps xs else None)"
| "match_path (Param # ps) (x # xs) =
     (if x = [] then None else map_option ((#) x) (match_path ps xs))"
| "match_path ps xs = None"

fun find_route ::
  "(http_method \<times> segment list \<times> route) list \<Rightarrow> http_method \<Rightarrow> string list
     \<Rightarrow> (route \<times> string list) option" where
  "find_route [] m p = None"
| "find_route ((m', pat, r) # rest) m p =
     (if m' = m
      then (case match_path pat p of
              Some params \<Rightarrow> Some (r, params)
            | None \<Rightarrow> find_route rest m p)
      else find_route rest m p)"

text \<open>
  A request: method, path, the \<^verbatim>\<open>Authorization\<close> header and the body. The body
  carries the fields the handlers destructure (\<^verbatim>\<open>campaignId\<close>, \<^verbatim>\<open>amount\<close>,
  \<^verbatim>\<open>tipAmount\<close>, \<^verbatim>\<open>donorName\<close>, \<^verbatim>\<open>verified\<close>) and, as text, whatever else it holds;
  a handler ignores the fields it does not read.
\<close>

record request =
  req_method :: http_method
  req_path :: "string list"
  authorization :: "string option"
  campaignId :: ident
  req_amount :: jsval
  tipAmount :: "int option"
  donorName :: "string option"
  verified :: bool
  req_text :: string

text \<open>
  \<open>handle\<close> sends a request to its handler. The result is \<open>None\<close> when no route
  matches or when the route's handler is one of those not modelled here (sessions,
  tickets, statistics, hospital verification, posting a review, the listings of a
  campaign's donations and of all verifications).
\<close>

definition handle ::
  "idp \<Rightarrow> (nat \<Rightarrow> real) \<Rightarrow> (jsval \<Rightarrow> jsval \<Rightarrow> jsval) \<Rightarrow> request \<Rightarrow> world
     \<Rightarrow> (response \<times> world) option" where
  "handle provider rnd js_add req w =
     (case find_route routes (req_method req) (req_path req) of
        None \<Rightarrow> None
      | Some (r, params) \<Rightarrow>
          (case r of
             AuthUser \<Rightarrow> Some (get_auth_user provider (authorization req) w)
           | CampaignsIndex \<Rightarrow> Some (get_campaigns w)
           | CampaignById \<Rightarrow>
               (case params of [i] \<Rightarrow> Some (get_campaign_by_id i w) | other \<Rightarrow> None)
           | CampaignsMy \<Rightarrow> Some (get_campaigns_my provider (authorization req) w)
           | CampaignsCreate \<Rightarrow>
               Some (post_campaigns provider rnd (authorization req) (req_text req) w)
           | DonationsMy \<Rightarrow> Some (get_donations_my provider (authorization req) w)
           | DonationsCreate \<Rightarrow>
               Some (post_donations provider js_add (authorization req) (campaignId req)
                       (req_amount req) (tipAmount req) (donorName req) w)
           | ReviewsIndex \<Rightarrow> Some (get_reviews w)
           | NgoVerificationsMy \<Rightarrow>
               Some (get_ngo_verifications_my provider (authorization req) w)
           | NgoVerificationsCreate \<Rightarrow>
               Some (post_ngo_verifications provider (authorization req) (req_text req) w)
           | AdminNgoVerificationPatch \<Rightarrow>
               (case params of
                  [i] \<Rightarrow> Some (patch_admin_ngo_verifications i (verified req) w)
                | other \<Rightarrow> None)
           | other \<Rightarrow> None))"

section \<open>Observations used in the properties\<close>

text \<open>The fault the store holds for the \<open>i\<close>-th coming call to a table.\<close>

definition fault_at :: "world \<Rightarrow> nat \<Rightarrow> store_error option" where
  "fault_at w i = (if i < length (faults w) then faults w ! i else None)"

text \<open>A ledger read: the collected amount of the one campaign with the given id.\<close>

definition ledger_read :: "world \<Rightarrow> ident \<Rightarrow> jsval option" where
  "ledger_read w cid =
     (case filter (\<lambda>c. c_id c = cid) (campaigns w) of
        [c] \<Rightarrow> Some (collected_amount c)
      | other \<Rightarrow> None)"

text \<open>
  The intended invariant: every donation's amount is a number, and every campaign's
  collected amount is the number that is the sum of the amounts of the donations that
  refer to it. \<open>number v\<close> is the number a value is (0 for a value that is none).
\<close>

fun number :: "jsval \<Rightarrow> real" where
  "number (Num x) = x"
| "number v = 0"

definition donated :: "world \<Rightarrow> ident \<Rightarrow> real" where
  "donated w cid =
     sum_list (map (\<lambda>d. number (amount d)) (filter (\<lambda>d. campaign_id d = cid) (donations w)))"

definition ledger_ok :: "world \<Rightarrow> bool" where
  "ledger_ok w =
     (list_all (\<lambda>d. amount d = Num (number (amount d))) (donations w) \<and>
      list_all (\<lambda>c. collected_amount c = Num (donated w (c_id c))) (campaigns w))"

text \<open>The header's token, as the handlers compute it.\<close>

definition token_of :: "string \<Rightarrow> string" where
  "token_of h = replace_first ''Bearer '' [] h"

text \<open>The world after one call to a table, before the call's own effect.\<close>

definition after_call :: "store_call \<Rightarrow> world \<Rightarrow> world" where
  "after_call c w = w\<lparr>calls := calls w @ [c], faults := tl (faults w)\<rparr>"

text \<open>
  For \<^verbatim>\<open>POST /api/donations\<close>: the call to the identity provider that a header
  triggers, the donor it yields, and the row the store creates for the donation.
\<close>

definition auth_calls :: "string option \<Rightarrow> store_call list" where
  "auth_calls authHeader =
     (case authHeader of
        None \<Rightarrow> []
      | Some h \<Rightarrow> if h = [] then [] else [AuthGetUser (token_of h)])"

definition donor_of :: "idp \<Rightarrow> string option \<Rightarrow> ident option" where
  "donor_of provider authHeader =
     (case authHeader of
        None \<Rightarrow> None
      | Some h \<Rightarrow> if h = [] then None else au_user (provider (token_of h)))"

definition new_donation ::
  "idp \<Rightarrow> string option \<Rightarrow> ident \<Rightarrow> jsval \<Rightarrow> int option \<Rightarrow> string option \<Rightarrow> world
     \<Rightarrow> donation" where
  "new_donation provider authHeader cid amt tip dname w =
     \<lparr>d_id = decimal (seq w), campaign_id = cid, amount = amt,
      tip_amount = or_zero tip, donor_name = dname,
      donor_id = donor_of provider authHeader, d_created_at = seq w\<rparr>"

text \<open>The provider rejects a token: it reports an error or no user.\<close>

definition rejected :: "idp \<Rightarrow> string \<Rightarrow> bool" where
  "rejected provider h =
     (au_error (provider (token_of h)) \<noteq> None \<or> au_user (provider (token_of h)) = None)"

text \<open>A request is authenticated as the user \<open>uid\<close>.\<close>

definition authenticated :: "idp \<Rightarrow> string option \<Rightarrow> ident \<Rightarrow> bool" where
  "authenticated provider authHeader uid =
     (case authHeader of
        None \<Rightarrow> False
      | Some h \<Rightarrow>
          h \<noteq> [] \<and> au_error (provider (token_of h)) = None \<and>
          au_user (provider (token_of h)) = Some uid)"

text \<open>A request is unauthenticated: no header, an empty one, or a rejected token.\<close>

definition unauthenticated :: "idp \<Rightarrow> string option \<Rightarrow> bool" where
  "unauthenticated provider authHeader =
     (case authHeader of None \<Rightarrow> True | Some h \<Rightarrow> h = [] \<or> rejected provider h)"

text \<open>The response to the request \<open>req\<close> sent with method \<open>m\<close> to the path \<open>p\<close>.\<close>

definition answer ::
  "idp \<Rightarrow> (nat \<Rightarrow> real) \<Rightarrow> (jsval \<Rightarrow> jsval \<Rightarrow> jsval) \<Rightarrow> http_method \<Rightarrow> string list
     \<Rightarrow> request \<Rightarrow> world \<Rightarrow> response option" where
  "answer provider rnd js_add m p req w =
     map_option fst (handle provider rnd js_add (req\<lparr>req_method := m, req_path := p\<rparr>) w)"

section \<open>Sample inputs\<close>

definition sample_error :: store_error where
  "sample_error = \<lparr>e_code = ''57P01'', e_message = ''connection lost''\<rparr>"

definition sample_provider :: idp where
  "sample_provider token =
     (if token = ''good'' then \<lparr>au_user = Some ''u1'', au_error = None\<rparr>
      else \<lparr>au_user = None,
            au_error = Some \<lparr>e_code = ''bad_jwt'', e_message = ''invalid JWT''\<rparr>\<rparr>)"

definition sample_rnd :: "nat \<Rightarrow> real" where
  "sample_rnd i = 1 / 2"

definition review_at :: "nat \<Rightarrow> review" where
  "review_at n = \<lparr>r_id = ''r'', r_created_at = n, r_body = ''thanks''\<rparr>"

definition sample_world :: "store_error option list \<Rightarrow> world" where
  "sample_world fs =
     \<lparr>users = [\<lparr>u_id = ''u1'', is_ngo = False\<rparr>, \<lparr>u_id = ''u2'', is_ngo = True\<rparr>],
      campaigns =
        [\<lparr>c_id = ''c1'', unique_code = ''TF-SSSSSS'', created_by = ''u1'',
          collected_amount = Num 100, c_verified = False, c_created_at = 1, c_body = ''well''\<rparr>,
         \<lparr>c_id = ''c2'', unique_code = ''TF-AB12CD'', created_by = ''u2'',
          collected_amount = Num 0, c_verified = True, c_created_at = 2, c_body = ''school''\<rparr>],
      donations =
        [\<lparr>d_id = ''d1'', campaign_id = ''c1'', amount = Num 100, tip_amount = 0,
          donor_name = None, donor_id = None, d_created_at = 3\<rparr>],
      reviews = map review_at [5, 1, 9, 12, 3, 7, 2, 11, 4, 10, 6, 8],
      ngo_verifications =
        [\<lparr>v_id = ''v1'', user_id = ''u1'', v_verified = False, requested_at = 4,
          v_body = ''papers''\<rparr>],
      seq = 20,
      faults = fs,
      calls = []\<rparr>"

text \<open>
  The double nearest to an integer (ties to the even significand): \<open>excess n\<close> is
  the number of low bits of \<open>n\<close> beyond 53 significant ones. \<open>sample_plus\<close> is
  JavaScript's \<^verbatim>\<open>+\<close> on two integer-valued numbers whose sum stays below \<open>2^1024\<close>
  in magnitude, which is all the samples add; for other operands it is a placeholder.
\<close>

function excess :: "nat \<Rightarrow> nat" where
  "excess n = (if n < 2 ^ 53 then 0 else Suc (excess (n div 2)))"
  by pat_completeness auto
termination
  by (relation "measure (\<lambda>n. n)") auto

declare excess.simps [simp del]

definition nearest_double :: "int \<Rightarrow> int" where
  "nearest_double x =
     (let n = nat \<bar>x\<bar>;
          e = excess n;
          q = n div 2 ^ e;
          r = n mod 2 ^ e;
          m = (if 2 ^ e < 2 * r \<or> (2 * r = 2 ^ e \<and> odd q) then q + 1 else q) * 2 ^ e
      in if x < 0 then - int m else int m)"

definition sample_plus :: "jsval \<Rightarrow> jsval \<Rightarrow> jsval" where
  "sample_plus a b =
     (case (a, b) of
        (Num x, Num y) \<Rightarrow>
          if x = of_int \<lfloor>x\<rfloor> \<and> y = of_int \<lfloor>y\<rfloor>
          then Num (of_int (nearest_double (\<lfloor>x\<rfloor> + \<lfloor>y\<rfloor>)))
          else NaN
      | other \<Rightarrow> NaN)"

text \<open>A world whose campaign \<open>c1\<close> has collected \<open>2^53\<close> from one donation.\<close>

definition large_world :: world where
  "large_world =
     (sample_world [])
       \<lparr>campaigns :=
          [\<lparr>c_id = ''c1'', unique_code = ''TF-SSSSSS'', created_by = ''u1'',
            collected_amount = Num 9007199254740992, c_verified = False, c_created_at = 1,
            c_body = ''well''\<rparr>],
        donations :=
          [\<lparr>d_id = ''d1'', campaign_id = ''c1'', amount = Num 9007199254740992,
            tip_amount = 0, donor_name = None, donor_id = None, d_created_at = 3\<rparr>]\<rparr>"

definition sample_request :: "http_method \<Rightarrow> string list \<Rightarrow> string option \<Rightarrow> request" where
  "sample_request m p h =
     \<lparr>req_method = m, req_path = p, authorization = h, campaignId = ''c1'',
      req_amount = Num 50, tipAmount = None, donorName = None, verified = True,
      req_text = ''{}''\<rparr>"


section \<open>The campaign code\<close>

lemma charAt_chars:
  assumes "0 \<le> r" "r < 1"
  shows "\<exists>c. charAt chars \<lfloor>r * real (length chars)\<rfloor> = [c] \<and> c \<in> set chars"
proof -
  let ?k = "\<lfloor>r * real (length chars)\<rfloor>"
  have len: "length chars = 36" by (simp add: chars_def)
  have "0 \<le> r * 36" using assms by simp
  then have lo: "0 \<le> ?k" by (simp add: len)
  have "r * 36 < 36" using assms by simp
  then have hi: "?k < 36" by (simp add: len floor_less_iff)
  have "nat ?k < 36" using lo hi by linarith
  then have "nat ?k < length chars" by (simp only: len)
  then have "chars ! nat ?k \<in> set chars" by (rule nth_mem)
  moreover have "charAt chars ?k = [chars ! nat ?k]"
    unfolding charAt_def using lo hi by (simp only: len) simp
  ultimately show ?thesis by blast
qed

lemma gen_loop_suffix:
  "(\<forall>k. i \<le> k \<and> k < 6 \<longrightarrow> 0 \<le> rnd k \<and> rnd k < 1) \<Longrightarrow>
   \<exists>suffix. gen_loop rnd i code = code @ suffix \<and> length suffix = 6 - i \<and> set suffix \<subseteq> set chars"
proof (induction rnd i code rule: gen_loop.induct)
  case (1 rnd i code)
  show ?case
  proof (cases "i < 6")
    case False
    then show ?thesis by (simp add: gen_loop.simps)
  next
    case True
    with "1.prems" have "0 \<le> rnd i" "rnd i < 1" by auto
    then obtain c where c: "charAt chars \<lfloor>rnd i * real (length chars)\<rfloor> = [c]" "c \<in> set chars"
      using charAt_chars by blast
    have "\<forall>k. i + 1 \<le> k \<and> k < 6 \<longrightarrow> 0 \<le> rnd k \<and> rnd k < 1" using "1.prems" by auto
    from "1.IH"[OF True this] obtain suffix where
      s: "gen_loop rnd (i + 1) (code @ charAt chars \<lfloor>rnd i * real (length chars)\<rfloor>)
            = (code @ charAt chars \<lfloor>rnd i * real (length chars)\<rfloor>) @ suffix"
         "length suffix = 6 - (i + 1)" "set suffix \<subseteq> set chars"
      by blast
    have "gen_loop rnd i code = code @ (c # suffix)"
      using True s(1) c(1) by (subst gen_loop.simps) simp
    moreover have "length (c # suffix) = 6 - i" using True s(2) by simp
    moreover have "set (c # suffix) \<subseteq> set chars" using c(2) s(3) by simp
    ultimately show ?thesis by blast
  qed
qed

lemma chars_upper_or_digit: "c \<in> set chars \<Longrightarrow> upper_or_digit c"
  by (auto simp: chars_def upper_or_digit_def)


lemma post_campaigns_calls:
  assumes "h \<noteq> []" "provider (token_of h) = \<lparr>au_user = Some uid, au_error = None\<rparr>"
  shows "calls (snd (post_campaigns provider rnd (Some h) b w)) =
           calls w @ [AuthGetUser (token_of h), InsertCampaign b uid (generateUniqueCampaignCode rnd)]"
  using assms
  by (cases "faults w" rule: list.exhaust; cases "hd (faults w)")
     (simp_all add: post_campaigns_def auth_getUser_def insert_campaign_def from_table_def
        token_of_def Let_def)

text \<open>
  C4. When every draw of the random source lies in \<open>[0, 1)\<close>, the generated code has
  9 characters: the prefix \<open>TF-\<close> and 6 characters of \<open>A-Z0-9\<close>, so it matches
  \<open>^TF-[A-Z0-9]{6}$\<close>. The generator reads nothing of the store: an authenticated
  \<^verbatim>\<open>POST /api/campaigns\<close> goes from the identity check straight to the insert of the
  generated code, with no read of the existing campaigns in between.
\<close>

theorem generateUniqueCampaignCode_format:
  assumes "\<forall>i<6. 0 \<le> rnd i \<and> rnd i < 1"
  shows "length (generateUniqueCampaignCode rnd) = 9 \<and>
         take 3 (generateUniqueCampaignCode rnd) = ''TF-'' \<and>
         length (drop 3 (generateUniqueCampaignCode rnd)) = 6 \<and>
         set (drop 3 (generateUniqueCampaignCode rnd)) \<subseteq> set chars \<and>
         list_all upper_or_digit (drop 3 (generateUniqueCampaignCode rnd)) \<and>
         matches_code_pattern (generateUniqueCampaignCode rnd) \<and>
         (h \<noteq> [] \<and> provider (token_of h) = \<lparr>au_user = Some uid, au_error = None\<rparr> \<longrightarrow>
            calls (snd (post_campaigns provider rnd (Some h) b w)) =
              calls w @ [AuthGetUser (token_of h),
                         InsertCampaign b uid (generateUniqueCampaignCode rnd)])"
proof -
  from assms have "\<forall>k. 0 \<le> k \<and> k < 6 \<longrightarrow> 0 \<le> rnd k \<and> rnd k < 1" by simp
  from gen_loop_suffix [OF this, of "''TF-''"] obtain suffix where
    s: "gen_loop rnd 0 ''TF-'' = ''TF-'' @ suffix" "length suffix = 6" "set suffix \<subseteq> set chars"
    by auto
  have code: "generateUniqueCampaignCode rnd = ''TF-'' @ suffix"
    using s(1) by (simp add: generateUniqueCampaignCode_def)
  have cls: "list_all upper_or_digit suffix"
    using s(3) chars_upper_or_digit by (auto simp: list_all_iff)
  have fmt: "matches_code_pattern (''TF-'' @ suffix)"
    using s(2) cls by (simp add: matches_code_pattern_def)
  have c1: "length (generateUniqueCampaignCode rnd) = 9"
    using s(2) by (simp add: code)
  have c2: "take 3 (generateUniqueCampaignCode rnd) = ''TF-''"
    by (simp add: code)
  have dr: "drop 3 (generateUniqueCampaignCode rnd) = suffix"
    by (simp add: code)
  have c3: "length (drop 3 (generateUniqueCampaignCode rnd)) = 6"
    using s(2) by (simp only: dr)
  have c4: "set (drop 3 (generateUniqueCampaignCode rnd)) \<subseteq> set chars"
    using s(3) by (simp only: dr)
  have c5: "list_all upper_or_digit (drop 3 (generateUniqueCampaignCode rnd))"
    using cls by (simp only: dr)
  have c6: "matches_code_pattern (generateUniqueCampaignCode rnd)"
    using fmt by (simp only: code)
  have c7: "h \<noteq> [] \<and> provider (token_of h) = \<lparr>au_user = Some uid, au_error = None\<rparr> \<longrightarrow>
            calls (snd (post_campaigns provider rnd (Some h) b w)) =
              calls w @ [AuthGetUser (token_of h),
                         InsertCampaign b uid (generateUniqueCampaignCode rnd)]"
    using post_campaigns_calls by blast
  show ?thesis by (intro conjI) (rule c1 c2 c3 c4 c5 c6 c7)+
qed

theorem generateUniqueCampaignCode_format_witness:
  "list_all (\<lambda>i. 0 \<le> sample_rnd i \<and> sample_rnd i < 1) [0..<6] \<and>
   ''Bearer good'' \<noteq> [] \<and>
   sample_provider (token_of ''Bearer good'') = \<lparr>au_user = Some ''u1'', au_error = None\<rparr> \<and>
   generateUniqueCampaignCode sample_rnd = ''TF-SSSSSS'' \<and>
   length (generateUniqueCampaignCode sample_rnd) = 9 \<and>
   matches_code_pattern (generateUniqueCampaignCode sample_rnd) \<and>
   map unique_code (campaigns (sample_world [])) = [''TF-SSSSSS'', ''TF-AB12CD''] \<and>
   calls (snd (post_campaigns sample_provider sample_rnd (Some ''Bearer good'') ''{}''
                 (sample_world []))) =
     [AuthGetUser ''good'', InsertCampaign ''{}'' ''u1'' ''TF-SSSSSS'']"
proof -
  have r: "\<forall>i<6. 0 \<le> sample_rnd i \<and> sample_rnd i < 1"
    by (simp add: sample_rnd_def)
  have t: "token_of ''Bearer good'' = ''good''"
    by (simp add: token_of_def)
  have p: "sample_provider (token_of ''Bearer good'') = \<lparr>au_user = Some ''u1'', au_error = None\<rparr>"
    by (simp add: t sample_provider_def)
  have c: "generateUniqueCampaignCode sample_rnd = ''TF-SSSSSS''"
    by (simp add: generateUniqueCampaignCode_def gen_loop.simps chars_def charAt_def sample_rnd_def)
  have w: "calls (sample_world []) = []"
      "map unique_code (campaigns (sample_world [])) = [''TF-SSSSSS'', ''TF-AB12CD'']"
    by (simp_all add: sample_world_def)
  have l: "list_all (\<lambda>i. 0 \<le> sample_rnd i \<and> sample_rnd i < 1) [0..<6]"
    by (simp add: sample_rnd_def list_all_iff)
  show ?thesis
    using generateUniqueCampaignCode_format
            [OF r, of "''Bearer good''" sample_provider "''u1''" "''{}''" "sample_world []"]
          l p w
    by (simp add: c t)
qed

section \<open>Store calls\<close>

lemma no_faults_upd:
  "faults w = [] \<Longrightarrow> w\<lparr>calls := cs, faults := []\<rparr> = w\<lparr>calls := cs\<rparr>"
  by (cases w) simp

lemma from_table_eq:
  "from_table c q w =
     (case fault_at w 0 of
        None \<Rightarrow> q (after_call c w)
      | Some e \<Rightarrow> (Inl e, after_call c w))"
  by (cases "faults w")
     (auto simp: from_table_def fault_at_def after_call_def Let_def no_faults_upd
           split: option.splits list.splits)

lemma fault_at_after_call [simp]: "fault_at (after_call c w) i = fault_at w (Suc i)"
  by (cases "faults w") (auto simp: fault_at_def after_call_def)

lemma after_call_fields [simp]:
  "users (after_call c w) = users w"
  "campaigns (after_call c w) = campaigns w"
  "donations (after_call c w) = donations w"
  "reviews (after_call c w) = reviews w"
  "ngo_verifications (after_call c w) = ngo_verifications w"
  "seq (after_call c w) = seq w"
  "calls (after_call c w) = calls w @ [c]"
  by (simp_all add: after_call_def)

lemma fault_at_upd [simp]:
  "fault_at (w\<lparr>calls := cs\<rparr>) i = fault_at w i"
  "fault_at (w\<lparr>campaigns := c\<rparr>) i = fault_at w i"
  "fault_at (w\<lparr>donations := d\<rparr>) i = fault_at w i"
  "fault_at (w\<lparr>users := u\<rparr>) i = fault_at w i"
  "fault_at (w\<lparr>ngo_verifications := v\<rparr>) i = fault_at w i"
  "fault_at (w\<lparr>seq := n\<rparr>) i = fault_at w i"
  by (simp_all add: fault_at_def)

lemma fault_at_sample [simp]:
  "fault_at (sample_world fs) i = (if i < length fs then fs ! i else None)"
  by (simp add: fault_at_def sample_world_def)

lemma excess_small: "excess 150 = 0"
  by (simp add: excess.simps)

lemma excess_large: "excess 9007199254740993 = 1"
  by (simp add: excess.simps)

lemma sample_plus_small: "sample_plus (Num 100) (Num 50) = Num 150"
  by (simp add: sample_plus_def nearest_double_def excess_small Let_def)

lemma sample_plus_large:
  "sample_plus (Num 9007199254740992) (Num 1) = Num 9007199254740992"
  by (simp add: sample_plus_def nearest_double_def excess_large Let_def)

section \<open>Recording a donation\<close>

lemma resolve_donor_eq:
  "resolve_donor provider authHeader w =
     (donor_of provider authHeader, w\<lparr>calls := calls w @ auth_calls authHeader\<rparr>)"
  by (auto simp: resolve_donor_def donor_of_def auth_calls_def auth_getUser_def token_of_def
        Let_def split: option.splits)

lemmas donation_unfold =
  post_donations_def resolve_donor_eq insert_donation_def select_collected_amount_def
  update_collected_amount_def from_table_eq

lemma single_map_collected:
  "single (map collected_amount (filter (\<lambda>c. c_id c = cid) (campaigns w))) =
     (case ledger_read w cid of None \<Rightarrow> Inl no_single_row | Some t \<Rightarrow> Inr t)"
  by (cases "filter (\<lambda>c. c_id c = cid) (campaigns w)" rule: single.cases)
     (simp_all add: ledger_read_def split: list.splits)

lemma ledger_read_frame [simp]:
  "ledger_read (w\<lparr>calls := cs\<rparr>) cid = ledger_read w cid"
  "ledger_read (w\<lparr>donations := ds\<rparr>) cid = ledger_read w cid"
  "ledger_read (w\<lparr>seq := n\<rparr>) cid = ledger_read w cid"
  "ledger_read (after_call c w) cid = ledger_read w cid"
  by (simp_all add: ledger_read_def)

lemma post_donations_trace:
  "calls (snd (post_donations provider js_add authHeader cid amt tip dname w)) =
     calls w @ auth_calls authHeader
       @ [InsertDonation cid amt (or_zero tip) dname (donor_of provider authHeader)]
       @ (case fault_at w 0 of
            Some e \<Rightarrow> []
          | None \<Rightarrow>
              SelectCollectedAmount cid #
                (case (fault_at w 1, ledger_read w cid) of
                   (None, Some t) \<Rightarrow> [UpdateCollectedAmount cid (js_add t amt)]
                 | other \<Rightarrow> []))"
  by (simp add: donation_unfold single_map_collected Let_def
      split: option.splits prod.splits sum.splits)

lemma post_donations_insert_fails:
  assumes "fault_at w 0 = Some e"
  shows "fst (post_donations provider js_add authHeader cid amt tip dname w) =
           json 500 (Error (e_message e))"
    and "campaigns (snd (post_donations provider js_add authHeader cid amt tip dname w)) = campaigns w"
    and "donations (snd (post_donations provider js_add authHeader cid amt tip dname w)) = donations w"
    and "users (snd (post_donations provider js_add authHeader cid amt tip dname w)) = users w"
  using assms
  by (simp_all add: donation_unfold Let_def split: option.splits prod.splits sum.splits)

lemma post_donations_inserted:
  assumes "fault_at w 0 = None"
  shows "fst (post_donations provider js_add authHeader cid amt tip dname w) =
           json 200 (DonationBody (new_donation provider authHeader cid amt tip dname w))"
    and "donations (snd (post_donations provider js_add authHeader cid amt tip dname w)) =
           donations w @ [new_donation provider authHeader cid amt tip dname w]"
  using assms
  by (simp_all add: donation_unfold single_map_collected new_donation_def Let_def
      split: option.splits prod.splits sum.splits)

lemma post_donations_campaigns:
  "campaigns (snd (post_donations provider js_add authHeader cid amt tip dname w)) =
     (case (fault_at w 0, fault_at w 1, ledger_read w cid, fault_at w 2) of
        (None, None, Some t, None) \<Rightarrow>
          map (\<lambda>c. if c_id c = cid then c\<lparr>collected_amount := js_add t amt\<rparr> else c) (campaigns w)
      | other \<Rightarrow> campaigns w)"
  by (simp add: donation_unfold single_map_collected Let_def numeral_2_eq_2
      split: option.splits prod.splits sum.splits)

lemma ledger_read_unique:
  assumes "ledger_read w cid = Some t" "c \<in> set (campaigns w)" "c_id c = cid"
  shows "collected_amount c = t"
proof -
  from assms(1) obtain c0 where
    c0: "filter (\<lambda>c. c_id c = cid) (campaigns w) = [c0]" "collected_amount c0 = t"
    by (auto simp: ledger_read_def split: list.splits)
  have "c \<in> set (filter (\<lambda>c. c_id c = cid) (campaigns w))"
    using assms(2,3) by simp
  then show ?thesis using c0 by simp
qed

lemma filter_written:
  "filter (\<lambda>c. c_id c = cid)
       (map (\<lambda>c. if c_id c = cid then c\<lparr>collected_amount := v\<rparr> else c) cs) =
     map (\<lambda>c. c\<lparr>collected_amount := v\<rparr>) (filter (\<lambda>c. c_id c = cid) cs)"
  by (induction cs) auto

lemma ledger_read_written:
  assumes "ledger_read w cid = Some t"
  shows "ledger_read
           (w\<lparr>campaigns :=
                map (\<lambda>c. if c_id c = cid then c\<lparr>collected_amount := v\<rparr> else c)
                  (campaigns w)\<rparr>) cid = Some v"
proof -
  from assms obtain c0 where "filter (\<lambda>c. c_id c = cid) (campaigns w) = [c0]"
    by (auto simp: ledger_read_def split: list.splits)
  then show ?thesis by (simp add: ledger_read_def filter_written)
qed

lemma ledger_read_campaigns:
  "campaigns w' = campaigns w \<Longrightarrow> ledger_read w' cid = ledger_read w cid"
  by (simp add: ledger_read_def)


text \<open>
  C1 (as amended). Take a campaign that exists, with a number \<open>t\<close> as its collected
  amount, and a donation whose amount is a number \<open>a\<close>, such that JavaScript's
  \<open>t + a\<close> is the exact sum (no rounding of the double). When the insert, the read of
  the total and the write-back all succeed, \<^verbatim>\<open>POST /api/donations\<close> records the
  donation and a ledger read after the handler gives \<open>t + a\<close>; the sum of the
  campaign's donations grows by \<open>a\<close>, so the intended invariant carries over from the
  world before to the world after. Handlers run one at a time in this model: no other
  writer acts between the read and the write-back.
\<close>

theorem post_donations_ledger:
  assumes "ledger_read w cid = Some (Num t)"
    and "js_add (Num t) (Num a) = Num (t + a)"
    and "fault_at w 0 = None" and "fault_at w 1 = None" and "fault_at w 2 = None"
  shows "fst (post_donations provider js_add authHeader cid (Num a) tip dname w) =
           json 200 (DonationBody (new_donation provider authHeader cid (Num a) tip dname w)) \<and>
         donations (snd (post_donations provider js_add authHeader cid (Num a) tip dname w)) =
           donations w @ [new_donation provider authHeader cid (Num a) tip dname w] \<and>
         ledger_read (snd (post_donations provider js_add authHeader cid (Num a) tip dname w)) cid =
           Some (Num (t + a)) \<and>
         donated (snd (post_donations provider js_add authHeader cid (Num a) tip dname w)) cid =
           donated w cid + a \<and>
         (ledger_ok w \<longrightarrow>
            ledger_ok (snd (post_donations provider js_add authHeader cid (Num a) tip dname w)))"
proof -
  let ?w' = "snd (post_donations provider js_add authHeader cid (Num a) tip dname w)"
  let ?row = "new_donation provider authHeader cid (Num a) tip dname w"
  let ?upd = "\<lambda>c. if c_id c = cid then c\<lparr>collected_amount := Num (t + a)\<rparr> else c"
  have resp: "fst (post_donations provider js_add authHeader cid (Num a) tip dname w) =
                json 200 (DonationBody ?row)"
    using assms(3) by (rule post_donations_inserted(1))
  have ds: "donations ?w' = donations w @ [?row]"
    using assms(3) by (rule post_donations_inserted(2))
  have cs: "campaigns ?w' = map ?upd (campaigns w)"
    using assms by (simp add: post_donations_campaigns)
  have "ledger_read ?w' cid = ledger_read (w\<lparr>campaigns := map ?upd (campaigns w)\<rparr>) cid"
    by (rule ledger_read_campaigns) (simp add: cs)
  then have rd: "ledger_read ?w' cid = Some (Num (t + a))"
    using assms(1) by (simp add: ledger_read_written)
  have sum_at: "donated ?w' k = donated w k + (if k = cid then a else 0)" for k
    by (simp add: donated_def ds new_donation_def)
  have inv: "ledger_ok ?w'" if ok: "ledger_ok w"
  proof -
    have nums: "list_all (\<lambda>d. amount d = Num (number (amount d))) (donations ?w')"
      using ok by (simp add: ledger_ok_def ds new_donation_def)
    have "collected_amount c' = Num (donated ?w' (c_id c'))"
      if "c' \<in> set (campaigns ?w')" for c'
    proof -
      from that obtain c where c: "c \<in> set (campaigns w)" "c' = ?upd c"
        by (auto simp: cs)
      from ok c(1) have old: "collected_amount c = Num (donated w (c_id c))"
        by (simp add: ledger_ok_def list_all_iff)
      show ?thesis
      proof (cases "c_id c = cid")
        case True
        then have "collected_amount c = Num t"
          using assms(1) c(1) by (simp add: ledger_read_unique)
        with True old show ?thesis by (simp add: c(2) sum_at)
      next
        case False
        with old show ?thesis by (simp add: c(2) sum_at)
      qed
    qed
    then show ?thesis
      using nums by (simp add: ledger_ok_def list_all_iff)
  qed
  show ?thesis
    using resp ds rd sum_at [of cid] inv by simp
qed

theorem post_donations_ledger_witness:
  "ledger_read (sample_world []) ''c1'' = Some (Num 100) \<and>
   sample_plus (Num 100) (Num 50) = Num (100 + 50) \<and>
   ledger_ok (sample_world []) \<and>
   status (fst (post_donations sample_provider sample_plus None ''c1'' (Num 50) None None
                  (sample_world []))) = 200 \<and>
   ledger_read (snd (post_donations sample_provider sample_plus None ''c1'' (Num 50) None None
                  (sample_world []))) ''c1'' = Some (Num 150) \<and>
   donated (snd (post_donations sample_provider sample_plus None ''c1'' (Num 50) None None
                  (sample_world []))) ''c1'' = 150 \<and>
   ledger_ok (snd (post_donations sample_provider sample_plus None ''c1'' (Num 50) None None
                  (sample_world [])))"
proof -
  have r: "ledger_read (sample_world []) ''c1'' = Some (Num 100)"
    by (simp add: ledger_read_def sample_world_def)
  have p: "sample_plus (Num 100) (Num 50) = Num (100 + 50)"
    by (simp add: sample_plus_small)
  have ok: "ledger_ok (sample_world [])"
    by (simp add: ledger_ok_def donated_def sample_world_def)
  have d: "donated (sample_world []) ''c1'' = 100"
    by (simp add: donated_def sample_world_def)
  have f: "fault_at (sample_world []) 0 = None" "fault_at (sample_world []) 1 = None"
      "fault_at (sample_world []) 2 = None"
    by simp_all
  show ?thesis
    using post_donations_ledger
            [where w = "sample_world []" and cid = "''c1''" and t = 100 and a = 50
               and js_add = sample_plus and provider = sample_provider and authHeader = None
               and tip = None and dname = None, OF r p f] ok
    by (simp add: r d json_def sample_plus_small)
qed

text \<open>
  C1 as stated fails in two ways. First, when the store rejects the write-back: the
  donation is recorded (the handler answers 200 with it), the campaign exists and nobody
  else writes, yet the collected amount is still 100 after a donation of 50, and the
  invariant that held before is broken. Second, when JavaScript's sum is not exact: with
  \<open>2^53\<close> collected and a donation of 1, every call succeeds, the sum written back is
  \<open>2^53\<close> again, and the invariant is broken likewise.
\<close>

theorem post_donations_ledger_counterexample:
  "ledger_read (sample_world [None, None, Some sample_error]) ''c1'' = Some (Num 100) \<and>
   ledger_ok (sample_world [None, None, Some sample_error]) \<and>
   status (fst (post_donations sample_provider sample_plus None ''c1'' (Num 50) None None
                  (sample_world [None, None, Some sample_error]))) = 200 \<and>
   map amount (donations (snd (post_donations sample_provider sample_plus None ''c1'' (Num 50)
                  None None (sample_world [None, None, Some sample_error])))) =
     [Num 100, Num 50] \<and>
   ledger_read (snd (post_donations sample_provider sample_plus None ''c1'' (Num 50) None None
                  (sample_world [None, None, Some sample_error]))) ''c1'' = Some (Num 100) \<and>
   \<not> ledger_ok (snd (post_donations sample_provider sample_plus None ''c1'' (Num 50) None None
                  (sample_world [None, None, Some sample_error]))) \<and>
   ledger_read large_world ''c1'' = Some (Num 9007199254740992) \<and>
   ledger_ok large_world \<and>
   sample_plus (Num 9007199254740992) (Num 1) = Num 9007199254740992 \<and>
   status (fst (post_donations sample_provider sample_plus None ''c1'' (Num 1) None None
                  large_world)) = 200 \<and>
   calls (snd (post_donations sample_provider sample_plus None ''c1'' (Num 1) None None
                  large_world)) =
     [InsertDonation ''c1'' (Num 1) 0 None None, SelectCollectedAmount ''c1'',
      UpdateCollectedAmount ''c1'' (Num 9007199254740992)] \<and>
   map amount (donations (snd (post_donations sample_provider sample_plus None ''c1'' (Num 1)
                  None None large_world))) = [Num 9007199254740992, Num 1] \<and>
   ledger_read (snd (post_donations sample_provider sample_plus None ''c1'' (Num 1) None None
                  large_world)) ''c1'' = Some (Num 9007199254740992) \<and>
   \<not> ledger_ok (snd (post_donations sample_provider sample_plus None ''c1'' (Num 1) None None
                  large_world))"
proof -
  let ?w = "sample_world [None, None, Some sample_error]"
  let ?w' = "snd (post_donations sample_provider sample_plus None ''c1'' (Num 50) None None ?w)"
  have r: "ledger_read ?w ''c1'' = Some (Num 100)"
    by (simp add: ledger_read_def sample_world_def)
  have ok: "ledger_ok ?w"
    by (simp add: ledger_ok_def donated_def sample_world_def)
  have st: "status (fst (post_donations sample_provider sample_plus None ''c1'' (Num 50) None
                           None ?w)) = 200"
    by (simp add: post_donations_inserted(1) json_def)
  have ds: "map amount (donations ?w') = [Num 100, Num 50]"
    by (simp add: post_donations_inserted(2) new_donation_def) (simp add: sample_world_def)
  have cs: "campaigns ?w' = campaigns ?w"
    by (simp add: post_donations_campaigns r)
  have r': "ledger_read ?w' ''c1'' = Some (Num 100)"
    using ledger_read_campaigns [OF cs] r by simp
  have "donated ?w' ''c1'' = 150"
    by (simp add: donated_def post_donations_inserted(2) new_donation_def)
       (simp add: sample_world_def)
  then have bad: "\<not> ledger_ok ?w'"
    by (simp add: ledger_ok_def cs) (simp add: sample_world_def)
  let ?v = large_world
  let ?v' = "snd (post_donations sample_provider sample_plus None ''c1'' (Num 1) None None ?v)"
  have f: "fault_at ?v i = None" for i
    by (simp add: large_world_def)
  have c0: "calls ?v = []"
    by (simp add: large_world_def sample_world_def)
  have lr: "ledger_read ?v ''c1'' = Some (Num 9007199254740992)"
    by (simp add: ledger_read_def large_world_def)
  have lok: "ledger_ok ?v"
    by (simp add: ledger_ok_def donated_def large_world_def)
  have lst: "status (fst (post_donations sample_provider sample_plus None ''c1'' (Num 1) None
                            None ?v)) = 200"
    by (simp add: post_donations_inserted(1) f json_def)
  have ltr: "calls ?v' =
               [InsertDonation ''c1'' (Num 1) 0 None None, SelectCollectedAmount ''c1'',
                UpdateCollectedAmount ''c1'' (Num 9007199254740992)]"
    by (simp add: post_donations_trace f lr c0 sample_plus_large auth_calls_def donor_of_def
          or_zero_def)
  have lds: "map amount (donations ?v') = [Num 9007199254740992, Num 1]"
    by (simp add: post_donations_inserted(2) f new_donation_def) (simp add: large_world_def)
  have lcs: "campaigns ?v' =
               map (\<lambda>c. if c_id c = ''c1'' then c\<lparr>collected_amount := Num 9007199254740992\<rparr> else c)
                 (campaigns ?v)"
    by (simp add: post_donations_campaigns f lr sample_plus_large)
  have lr': "ledger_read ?v' ''c1'' = Some (Num 9007199254740992)"
    by (simp add: ledger_read_def lcs) (simp add: large_world_def)
  have "donated ?v' ''c1'' = 9007199254740993"
    by (simp add: donated_def post_donations_inserted(2) f new_donation_def)
       (simp add: large_world_def)
  then have lbad: "\<not> ledger_ok ?v'"
    by (simp add: ledger_ok_def lcs) (simp add: large_world_def)
  from r ok st ds r' bad lr lok lst ltr lds lr' lbad show ?thesis
    by (simp add: sample_plus_large)
qed

text \<open>
  C2 (as amended). The calls \<^verbatim>\<open>POST /api/donations\<close> makes, in order and with nothing
  else: (1) when a non-empty header is present, the resolution of the donor from its
  token (otherwise no call, and the donor is null); (2) the insert of the donation with
  the amount, the tip, the donor name and the resolved donor; then, only when the insert
  succeeded, (3) the read of the campaign's collected total; then, only when that read
  returned the campaign's total, (4) the write-back of the value of JavaScript's
  \<^verbatim>\<open>+\<close> on that total and the amount, which is their sum where both are numbers and
  the double addition is exact.
\<close>

theorem post_donations_steps:
  "calls (snd (post_donations provider js_add authHeader cid amt tip dname w)) =
     calls w
       @ (case authHeader of
            None \<Rightarrow> []
          | Some h \<Rightarrow> if h = [] then [] else [AuthGetUser (token_of h)])
       @ [InsertDonation cid amt (or_zero tip) dname
            (case authHeader of
               None \<Rightarrow> None
             | Some h \<Rightarrow> if h = [] then None else au_user (provider (token_of h)))]
       @ (case fault_at w 0 of
            Some e \<Rightarrow> []
          | None \<Rightarrow>
              SelectCollectedAmount cid #
                (case (fault_at w 1, ledger_read w cid) of
                   (None, Some t) \<Rightarrow> [UpdateCollectedAmount cid (js_add t amt)]
                 | other \<Rightarrow> []))"
  using post_donations_trace [of provider js_add authHeader cid amt tip dname w]
  by (simp add: auth_calls_def donor_of_def)

theorem post_donations_steps_witness:
  "sample_plus (Num 100) (Num 50) = Num (100 + 50) \<and>
   calls (snd (post_donations sample_provider sample_plus (Some ''Bearer good'') ''c1'' (Num 50)
                 (Some 5) (Some ''Ada'') (sample_world []))) =
     [AuthGetUser ''good'',
      InsertDonation ''c1'' (Num 50) 5 (Some ''Ada'') (Some ''u1''),
      SelectCollectedAmount ''c1'',
      UpdateCollectedAmount ''c1'' (Num 150)]"
proof -
  have r: "ledger_read (sample_world []) ''c1'' = Some (Num 100)"
    by (simp add: ledger_read_def sample_world_def)
  have c: "calls (sample_world []) = []"
    by (simp add: sample_world_def)
  show ?thesis
    using post_donations_steps
            [of sample_provider sample_plus "Some ''Bearer good''" "''c1''" "Num 50" "Some 5"
                "Some ''Ada''" "sample_world []"]
    by (simp add: r c token_of_def sample_provider_def or_zero_def sample_plus_small)
qed

text \<open>
  C2 as stated fails in two ways. When the insert fails, the handler stops after step (2)
  and neither reads the campaign nor writes a total. And the value step (4) writes is not
  always the total plus the amount: with \<open>2^53\<close> collected and a donation of 1 it
  writes \<open>2^53\<close>.
\<close>

theorem post_donations_steps_counterexample:
  "calls (snd (post_donations sample_provider sample_plus None ''c1'' (Num 50) None None
                 (sample_world [Some sample_error]))) =
     [InsertDonation ''c1'' (Num 50) 0 None None] \<and>
   ledger_read large_world ''c1'' = Some (Num 9007199254740992) \<and>
   sample_plus (Num 9007199254740992) (Num 1) = Num 9007199254740992 \<and>
   calls (snd (post_donations sample_provider sample_plus None ''c1'' (Num 1) None None
                 large_world)) =
     [InsertDonation ''c1'' (Num 1) 0 None None, SelectCollectedAmount ''c1'',
      UpdateCollectedAmount ''c1'' (Num 9007199254740992)]"
proof -
  have c: "calls (sample_world [Some sample_error]) = []"
    by (simp add: sample_world_def)
  have f: "fault_at large_world i = None" for i
    by (simp add: large_world_def)
  have c0: "calls large_world = []"
    by (simp add: large_world_def sample_world_def)
  have lr: "ledger_read large_world ''c1'' = Some (Num 9007199254740992)"
    by (simp add: ledger_read_def large_world_def)
  show ?thesis
    by (simp add: post_donations_trace c c0 f lr sample_plus_large auth_calls_def donor_of_def
          or_zero_def)
qed

text \<open>
  C3. When the insert of the donation fails with \<open>e\<close>, the handler answers 500 with
  \<open>e\<close>'s message, makes no call after the insert and leaves campaigns and donations as
  they were. When the insert succeeds and the read of the total fails (the store rejects
  it, or it finds no single campaign) or the write-back fails, the handler still answers
  200 with the donation, the donation's row stays in the table, the campaigns are
  unchanged, and no call follows the failed one.
\<close>

theorem post_donations_failure_modes:
  "(fault_at w 0 = Some e \<longrightarrow>
      fst (post_donations provider js_add authHeader cid amt tip dname w) =
        json 500 (Error (e_message e)) \<and>
      calls (snd (post_donations provider js_add authHeader cid amt tip dname w)) =
        calls w @ auth_calls authHeader
          @ [InsertDonation cid amt (or_zero tip) dname (donor_of provider authHeader)] \<and>
      campaigns (snd (post_donations provider js_add authHeader cid amt tip dname w)) = campaigns w \<and>
      donations (snd (post_donations provider js_add authHeader cid amt tip dname w)) = donations w) \<and>
   (fault_at w 0 = None \<and> (fault_at w 1 = Some e \<or> ledger_read w cid = None) \<longrightarrow>
      fst (post_donations provider js_add authHeader cid amt tip dname w) =
        json 200 (DonationBody (new_donation provider authHeader cid amt tip dname w)) \<and>
      donations (snd (post_donations provider js_add authHeader cid amt tip dname w)) =
        donations w @ [new_donation provider authHeader cid amt tip dname w] \<and>
      campaigns (snd (post_donations provider js_add authHeader cid amt tip dname w)) = campaigns w \<and>
      calls (snd (post_donations provider js_add authHeader cid amt tip dname w)) =
        calls w @ auth_calls authHeader
          @ [InsertDonation cid amt (or_zero tip) dname (donor_of provider authHeader),
             SelectCollectedAmount cid]) \<and>
   (fault_at w 0 = None \<and> fault_at w 1 = None \<and> ledger_read w cid = Some t \<and>
    fault_at w 2 = Some e \<longrightarrow>
      fst (post_donations provider js_add authHeader cid amt tip dname w) =
        json 200 (DonationBody (new_donation provider authHeader cid amt tip dname w)) \<and>
      donations (snd (post_donations provider js_add authHeader cid amt tip dname w)) =
        donations w @ [new_donation provider authHeader cid amt tip dname w] \<and>
      campaigns (snd (post_donations provider js_add authHeader cid amt tip dname w)) = campaigns w \<and>
      calls (snd (post_donations provider js_add authHeader cid amt tip dname w)) =
        calls w @ auth_calls authHeader
          @ [InsertDonation cid amt (or_zero tip) dname (donor_of provider authHeader),
             SelectCollectedAmount cid, UpdateCollectedAmount cid (js_add t amt)])"
proof (intro conjI impI)
  assume "fault_at w 0 = Some e"
  then show "fst (post_donations provider js_add authHeader cid amt tip dname w) =
               json 500 (Error (e_message e))"
    and "campaigns (snd (post_donations provider js_add authHeader cid amt tip dname w)) = campaigns w"
    and "donations (snd (post_donations provider js_add authHeader cid amt tip dname w)) = donations w"
    and "calls (snd (post_donations provider js_add authHeader cid amt tip dname w)) =
           calls w @ auth_calls authHeader
             @ [InsertDonation cid amt (or_zero tip) dname (donor_of provider authHeader)]"
    by (simp_all add: post_donations_insert_fails post_donations_trace)
next
  assume a: "fault_at w 0 = None \<and> (fault_at w 1 = Some e \<or> ledger_read w cid = None)"
  then show "fst (post_donations provider js_add authHeader cid amt tip dname w) =
               json 200 (DonationBody (new_donation provider authHeader cid amt tip dname w))"
    and "donations (snd (post_donations provider js_add authHeader cid amt tip dname w)) =
           donations w @ [new_donation provider authHeader cid amt tip dname w]"
    by (simp_all add: post_donations_inserted)
  from a show "campaigns (snd (post_donations provider js_add authHeader cid amt tip dname w)) =
                 campaigns w"
    by (auto simp: post_donations_campaigns split: option.splits)
  from a show "calls (snd (post_donations provider js_add authHeader cid amt tip dname w)) =
                 calls w @ auth_calls authHeader
                   @ [InsertDonation cid amt (or_zero tip) dname (donor_of provider authHeader),
                      SelectCollectedAmount cid]"
    by (auto simp: post_donations_trace split: option.splits)
next
  assume a: "fault_at w 0 = None \<and> fault_at w 1 = None \<and> ledger_read w cid = Some t \<and>
             fault_at w 2 = Some e"
  then show "fst (post_donations provider js_add authHeader cid amt tip dname w) =
               json 200 (DonationBody (new_donation provider authHeader cid amt tip dname w))"
    and "donations (snd (post_donations provider js_add authHeader cid amt tip dname w)) =
           donations w @ [new_donation provider authHeader cid amt tip dname w]"
    by (simp_all add: post_donations_inserted)
  from a show "campaigns (snd (post_donations provider js_add authHeader cid amt tip dname w)) =
                 campaigns w"
    by (simp add: post_donations_campaigns)
  from a show "calls (snd (post_donations provider js_add authHeader cid amt tip dname w)) =
                 calls w @ auth_calls authHeader
                   @ [InsertDonation cid amt (or_zero tip) dname (donor_of provider authHeader),
                      SelectCollectedAmount cid, UpdateCollectedAmount cid (js_add t amt)]"
    by (simp add: post_donations_trace)
qed


theorem post_donations_failure_modes_witness:
  "fst (post_donations sample_provider sample_plus None
          ''c1'' (Num 50) None None
          (sample_world [Some sample_error])) = json 500 (Error ''connection lost'') \<and>
   calls (snd (post_donations sample_provider sample_plus None
          ''c1'' (Num 50) None None
          (sample_world [Some sample_error]))) = [InsertDonation ''c1'' (Num 50) 0 None None] \<and>
   map amount (donations (snd (post_donations sample_provider sample_plus None
          ''c1'' (Num 50) None None
          (sample_world [Some sample_error])))) = [Num 100] \<and>
   status (fst (post_donations sample_provider sample_plus None
          ''c1'' (Num 50) None None
          (sample_world [None, None, Some sample_error]))) = 200 \<and>
   map amount (donations (snd (post_donations sample_provider sample_plus None
          ''c1'' (Num 50) None None
          (sample_world [None, None, Some sample_error])))) = [Num 100, Num 50] \<and>
   map collected_amount (campaigns (snd (post_donations sample_provider sample_plus None
          ''c1'' (Num 50) None None (sample_world [None, None, Some sample_error])))) = [Num 100, Num 0] \<and>
   calls (snd (post_donations sample_provider sample_plus None
          ''c1'' (Num 50) None None
          (sample_world [None, None, Some sample_error]))) =
     [InsertDonation ''c1'' (Num 50) 0 None None, SelectCollectedAmount ''c1'',
      UpdateCollectedAmount ''c1'' (Num 150)]"
proof -
  have r: "ledger_read (sample_world fs) ''c1'' = Some (Num 100)" for fs
    by (simp add: ledger_read_def sample_world_def)
  have w: "calls (sample_world fs) = []"
      "map amount (donations (sample_world fs)) = [Num 100]"
      "map collected_amount (campaigns (sample_world fs)) = [Num 100, Num 0]" for fs
    by (simp_all add: sample_world_def)
  have a: "auth_calls None = []" "donor_of sample_provider None = None" "or_zero None = 0"
    by (simp_all add: auth_calls_def donor_of_def or_zero_def)
  have m: "e_message sample_error = ''connection lost''"
    by (simp add: sample_error_def)
  have n: "amount (new_donation sample_provider None ''c1'' (Num 50) None None v) = Num 50" for v
    by (simp add: new_donation_def)
  show ?thesis
    using post_donations_failure_modes
            [of "sample_world [Some sample_error]" sample_error sample_provider sample_plus
                None "''c1''" "Num 50" None None "Num 100"]
          post_donations_failure_modes
            [of "sample_world [None, None, Some sample_error]" sample_error sample_provider
                sample_plus None "''c1''" "Num 50" None None "Num 100"]
    by (simp add: r w a m n json_def sample_plus_small)
qed

section \<open>Anonymous donations\<close>






section \<open>NGO verification\<close>

lemma update_verification_eq:
  "update_verification i flag w =
     (case fault_at w 0 of
        Some e \<Rightarrow> (Inl e, after_call (UpdateVerification i flag) w)
      | None \<Rightarrow>
          (single (filter (\<lambda>v. v_id v = i)
                     (map (\<lambda>v. if v_id v = i then v\<lparr>v_verified := flag\<rparr> else v)
                        (ngo_verifications w))),
           (after_call (UpdateVerification i flag) w)
             \<lparr>ngo_verifications :=
                 map (\<lambda>v. if v_id v = i then v\<lparr>v_verified := flag\<rparr> else v)
                   (ngo_verifications w)\<rparr>))"
  by (simp add: update_verification_def from_table_eq Let_def split: option.splits)

lemma update_verification_frame:
  "users (snd (update_verification i flag w)) = users w"
  "calls (snd (update_verification i flag w)) = calls w @ [UpdateVerification i flag]"
  "fault_at (snd (update_verification i flag w)) k = fault_at w (Suc k)"
  by (simp_all add: update_verification_eq split: option.splits)

lemma update_user_is_ngo_eq:
  "update_user_is_ngo uid flag w =
     (case fault_at w 0 of
        Some e \<Rightarrow> (Inl e, after_call (UpdateUserIsNgo uid flag) w)
      | None \<Rightarrow>
          (Inr (),
           (after_call (UpdateUserIsNgo uid flag) w)
             \<lparr>users := map (\<lambda>u. if u_id u = uid then u\<lparr>is_ngo := flag\<rparr> else u) (users w)\<rparr>))"
  by (simp add: update_user_is_ngo_def from_table_eq split: option.splits)

lemma patch_reject:
  "users (snd (patch_admin_ngo_verifications i False w)) = users w"
  "calls (snd (patch_admin_ngo_verifications i False w)) = calls w @ [UpdateVerification i False]"
  by (simp_all add: patch_admin_ngo_verifications_def update_verification_eq
      split: option.splits prod.splits sum.splits)

lemma patch_approve:
  assumes "fst (update_verification i True w) = Inr v"
  shows "fst (patch_admin_ngo_verifications i True w) = json 200 (VerificationBody (Some v))"
    and "calls (snd (patch_admin_ngo_verifications i True w)) =
           calls w @ [UpdateVerification i True, UpdateUserIsNgo (user_id v) True]"
    and "fault_at w 1 = None \<Longrightarrow>
           users (snd (patch_admin_ngo_verifications i True w)) =
             map (\<lambda>u. if u_id u = user_id v then u\<lparr>is_ngo := True\<rparr> else u) (users w)"
    and "fault_at w 1 = Some e \<Longrightarrow>
           users (snd (patch_admin_ngo_verifications i True w)) = users w"
  using assms
  by (auto simp: patch_admin_ngo_verifications_def update_verification_eq
        update_user_is_ngo_eq split: option.splits prod.splits sum.splits)

lemma patch_users:
  "users (snd (patch_admin_ngo_verifications i flag w)) = users w \<or>
   (\<exists>uid. users (snd (patch_admin_ngo_verifications i flag w)) =
            map (\<lambda>u. if u_id u = uid then u\<lparr>is_ngo := True\<rparr> else u) (users w))"
  by (auto simp: patch_admin_ngo_verifications_def update_verification_eq
        update_user_is_ngo_eq split: option.splits prod.splits sum.splits)

text \<open>
  C5 (as amended). When \<^verbatim>\<open>PATCH /api/admin/ngo-verifications/:id\<close> is sent
  \<open>verified = true\<close> and the update of the verification record succeeds with the
  record \<open>v\<close>, the handler answers 200 with \<open>v\<close> and makes a second write, to the
  users table: it sets \<open>is_ngo\<close> to true for the user \<open>v\<close> refers to. The result of
  that write is not looked at. When the store carries it out, every user with that id has
  the flag set afterwards and no other user is changed; when the store rejects it, the
  users are left as they were.
\<close>

theorem patch_ngo_verification_approves:
  assumes "fst (update_verification i True w) = Inr v"
  shows "fst (patch_admin_ngo_verifications i True w) =
           json 200 (VerificationBody (Some v)) \<and>
         calls (snd (patch_admin_ngo_verifications i True w)) =
           calls w @ [UpdateVerification i True, UpdateUserIsNgo (user_id v) True] \<and>
         (fault_at w 1 = None \<longrightarrow>
            users (snd (patch_admin_ngo_verifications i True w)) =
              map (\<lambda>u. if u_id u = user_id v then u\<lparr>is_ngo := True\<rparr> else u) (users w) \<and>
            (\<forall>u \<in> set (users (snd (patch_admin_ngo_verifications i True w))).
               u_id u = user_id v \<longrightarrow> is_ngo u)) \<and>
         (fault_at w 1 = Some e \<longrightarrow>
            users (snd (patch_admin_ngo_verifications i True w)) = users w)"
proof -
  have us: "\<forall>u \<in> set (users (snd (patch_admin_ngo_verifications i True w))).
              u_id u = user_id v \<longrightarrow> is_ngo u" if "fault_at w 1 = None"
    using patch_approve(3) [OF assms that] by auto
  show ?thesis
    using patch_approve(1,2,3) [OF assms] patch_approve(4) [OF assms, of e] us by blast
qed

theorem patch_ngo_verification_approves_witness:
  "fst (update_verification ''v1'' True (sample_world [])) =
     Inr \<lparr>v_id = ''v1'', user_id = ''u1'', v_verified = True, requested_at = 4,
          v_body = ''papers''\<rparr> \<and>
   map is_ngo (users (sample_world [])) = [False, True] \<and>
   status (fst (patch_admin_ngo_verifications ''v1'' True (sample_world []))) = 200 \<and>
   calls (snd (patch_admin_ngo_verifications ''v1'' True (sample_world []))) =
     [UpdateVerification ''v1'' True, UpdateUserIsNgo ''u1'' True] \<and>
   map is_ngo (users (snd (patch_admin_ngo_verifications ''v1'' True (sample_world [])))) =
     [True, True]"
proof -
  have v: "fst (update_verification ''v1'' True (sample_world [])) =
             Inr \<lparr>v_id = ''v1'', user_id = ''u1'', v_verified = True, requested_at = 4,
                  v_body = ''papers''\<rparr>"
    by (simp add: update_verification_eq) (simp add: sample_world_def)
  have w: "calls (sample_world []) = []"
      "users (sample_world []) = [\<lparr>u_id = ''u1'', is_ngo = False\<rparr>, \<lparr>u_id = ''u2'', is_ngo = True\<rparr>]"
    by (simp_all add: sample_world_def)
  show ?thesis
    using patch_ngo_verification_approves [OF v] v
    by (simp add: w json_def)
qed

text \<open>
  C5 as stated fails when the store rejects the second write: the request sets
  \<open>verified = true\<close>, the update of the record \<open>v1\<close> succeeds, the handler answers
  200 and has made the write for the user \<open>u1\<close>, yet \<open>u1\<close> is no NGO afterwards.
\<close>

theorem patch_ngo_verification_approves_counterexample:
  "fst (update_verification ''v1'' True (sample_world [None, Some sample_error])) =
     Inr \<lparr>v_id = ''v1'', user_id = ''u1'', v_verified = True, requested_at = 4,
          v_body = ''papers''\<rparr> \<and>
   status (fst (patch_admin_ngo_verifications ''v1'' True
                  (sample_world [None, Some sample_error]))) = 200 \<and>
   calls (snd (patch_admin_ngo_verifications ''v1'' True
                  (sample_world [None, Some sample_error]))) =
     [UpdateVerification ''v1'' True, UpdateUserIsNgo ''u1'' True] \<and>
   users (snd (patch_admin_ngo_verifications ''v1'' True
                  (sample_world [None, Some sample_error]))) =
     [\<lparr>u_id = ''u1'', is_ngo = False\<rparr>, \<lparr>u_id = ''u2'', is_ngo = True\<rparr>]"
proof -
  let ?w = "sample_world [None, Some sample_error]"
  have v: "fst (update_verification ''v1'' True ?w) =
             Inr \<lparr>v_id = ''v1'', user_id = ''u1'', v_verified = True, requested_at = 4,
                  v_body = ''papers''\<rparr>"
    by (simp add: update_verification_eq) (simp add: sample_world_def)
  have w: "calls ?w = []"
      "users ?w = [\<lparr>u_id = ''u1'', is_ngo = False\<rparr>, \<lparr>u_id = ''u2'', is_ngo = True\<rparr>]"
    by (simp_all add: sample_world_def)
  have f: "fault_at ?w 1 = Some sample_error"
    by simp
  show ?thesis
    using patch_approve(1,2) [OF v] patch_approve(4) [OF v f] v
    by (simp add: w json_def)
qed

text \<open>
  C9. With \<open>verified = false\<close> the handler writes the verification record only: the
  users table is left as it was. Whatever the request, no user loses the flag: after
  the handler the users are the same rows in the same order, and each user that was an
  NGO before still is.
\<close>

theorem patch_ngo_verification_rejects:
  "users (snd (patch_admin_ngo_verifications i False w)) = users w \<and>
   calls (snd (patch_admin_ngo_verifications i False w)) = calls w @ [UpdateVerification i False] \<and>
   map u_id (users (snd (patch_admin_ngo_verifications i flag w))) = map u_id (users w) \<and>
   (\<forall>k < length (users w).
      is_ngo (users w ! k) \<longrightarrow> is_ngo (users (snd (patch_admin_ngo_verifications i flag w)) ! k))"
proof -
  have m: "map u_id (map (\<lambda>u. if u_id u = uid then u\<lparr>is_ngo := True\<rparr> else u) us) = map u_id us"
    for uid and us :: "user_row list"
    by (induction us) auto
  have keep: "map u_id (users (snd (patch_admin_ngo_verifications i flag w))) = map u_id (users w)"
    using patch_users [of i flag w] by (auto simp: m)
  have mono: "is_ngo (users (snd (patch_admin_ngo_verifications i flag w)) ! k)"
    if "k < length (users w)" "is_ngo (users w ! k)" for k
    using patch_users [of i flag w] that by auto
  show ?thesis
    using patch_reject [of i w] keep mono by blast
qed

theorem patch_ngo_verification_rejects_witness:
  "map is_ngo (users (sample_world [])) = [False, True] \<and>
   users (snd (patch_admin_ngo_verifications ''v1'' False (sample_world []))) =
     users (sample_world []) \<and>
   calls (snd (patch_admin_ngo_verifications ''v1'' False (sample_world []))) =
     [UpdateVerification ''v1'' False] \<and>
   is_ngo (users (sample_world []) ! 1) \<and>
   is_ngo (users (snd (patch_admin_ngo_verifications ''v1'' True (sample_world []))) ! 1)"
proof -
  have w: "calls (sample_world []) = []"
      "map is_ngo (users (sample_world [])) = [False, True]"
      "length (users (sample_world [])) = 2"
      "is_ngo (users (sample_world []) ! 1)"
    by (simp_all add: sample_world_def)
  have k: "1 < length (users (sample_world []))"
    by (simp add: w)
  have p: "is_ngo (users (snd (patch_admin_ngo_verifications ''v1'' True (sample_world []))) ! 1)"
    using patch_ngo_verification_rejects [of "''v1''" "sample_world []" True] k w(4) by blast
  show ?thesis
    using patch_ngo_verification_rejects [of "''v1''" "sample_world []" False] p w(4)
    by (simp add: w(1,2,3))
qed

section \<open>Reviews\<close>

lemma order_desc_mset: "mset (order_desc f xs) = mset xs"
  by (simp add: order_desc_def)

lemma order_desc_sorted: "sorted_wrt (\<lambda>a b. f b \<le> f a) (order_desc f xs)"
proof -
  have "sorted (map f (sort_key f xs))"
    by (rule sorted_sort_key)
  then have "sorted_wrt (\<lambda>a b. f a \<le> f b) (sort_key f xs)"
    by (simp add: sorted_map)
  then show ?thesis
    by (simp add: order_desc_def sorted_wrt_rev)
qed

lemma get_reviews_eq:
  "get_reviews w =
     (case fault_at w 0 of
        Some e \<Rightarrow> (json 500 (Error (e_message e)), after_call (SelectReviews 10) w)
      | None \<Rightarrow>
          (json 200 (ReviewList (take 10 (order_desc r_created_at (reviews w)))),
           after_call (SelectReviews 10) w))"
  by (simp add: get_reviews_def select_reviews_def from_table_eq split: option.splits)

text \<open>
  C10. \<^verbatim>\<open>GET /api/reviews\<close> changes no review. When the store fails it answers 500;
  otherwise it answers with a list \<open>rs\<close> of \<open>min 10 n\<close> reviews, \<open>n\<close> the number of
  reviews in the table, such that \<open>rs\<close> followed by the reviews left out is the whole
  table in descending order of creation: \<open>rs\<close> holds the most recent reviews, most
  recent first. Whatever list of reviews the response carries, it has at most 10 entries.
\<close>

theorem get_reviews_latest_ten:
  "reviews (snd (get_reviews w)) = reviews w \<and>
   (\<forall>rs. body (fst (get_reviews w)) = ReviewList rs \<longrightarrow> length rs \<le> 10) \<and>
   (fault_at w 0 = Some e \<longrightarrow> fst (get_reviews w) = json 500 (Error (e_message e))) \<and>
   (fault_at w 0 = None \<longrightarrow>
      (\<exists>rs older.
         fst (get_reviews w) = json 200 (ReviewList rs) \<and>
         length rs = min 10 (length (reviews w)) \<and>
         mset (rs @ older) = mset (reviews w) \<and>
         sorted_wrt (\<lambda>a b. r_created_at b \<le> r_created_at a) (rs @ older)))"
proof (intro conjI allI impI)
  show "reviews (snd (get_reviews w)) = reviews w"
    by (simp add: get_reviews_eq split: option.splits)
next
  fix rs assume "body (fst (get_reviews w)) = ReviewList rs"
  then show "length rs \<le> 10"
    by (auto simp: get_reviews_eq json_def split: option.splits)
next
  assume "fault_at w 0 = Some e"
  then show "fst (get_reviews w) = json 500 (Error (e_message e))"
    by (simp add: get_reviews_eq)
next
  assume ok: "fault_at w 0 = None"
  let ?all = "order_desc r_created_at (reviews w)"
  have "length ?all = length (reviews w)"
    using order_desc_mset [of r_created_at "reviews w"] by (metis size_mset)
  then have len: "length (take 10 ?all) = min 10 (length (reviews w))"
    by simp
  have whole: "take 10 ?all @ drop 10 ?all = ?all"
    by simp
  have "fst (get_reviews w) = json 200 (ReviewList (take 10 ?all))"
    using ok by (simp add: get_reviews_eq)
  moreover have "mset (take 10 ?all @ drop 10 ?all) = mset (reviews w)"
    by (simp only: whole order_desc_mset)
  moreover have "sorted_wrt (\<lambda>a b. r_created_at b \<le> r_created_at a) (take 10 ?all @ drop 10 ?all)"
    by (simp only: whole order_desc_sorted)
  ultimately show "\<exists>rs older.
         fst (get_reviews w) = json 200 (ReviewList rs) \<and>
         length rs = min 10 (length (reviews w)) \<and>
         mset (rs @ older) = mset (reviews w) \<and>
         sorted_wrt (\<lambda>a b. r_created_at b \<le> r_created_at a) (rs @ older)"
    using len by blast
qed

theorem get_reviews_latest_ten_witness:
  "length (reviews (sample_world [])) = 12 \<and>
   fst (get_reviews (sample_world [])) =
     json 200 (ReviewList (map review_at [12, 11, 10, 9, 8, 7, 6, 5, 4, 3])) \<and>
   (\<exists>rs older.
      fst (get_reviews (sample_world [])) = json 200 (ReviewList rs) \<and>
      length rs = 10 \<and>
      mset (rs @ older) = mset (reviews (sample_world [])) \<and>
      sorted_wrt (\<lambda>a b. r_created_at b \<le> r_created_at a) (rs @ older))"
proof -
  have n: "length (reviews (sample_world [])) = 12"
    by (simp add: sample_world_def)
  have f: "fault_at (sample_world []) 0 = None"
    by simp
  have v: "fst (get_reviews (sample_world [])) =
             json 200 (ReviewList (map review_at [12, 11, 10, 9, 8, 7, 6, 5, 4, 3]))"
    by (simp add: get_reviews_eq order_desc_def) (simp add: sample_world_def review_at_def)
  show ?thesis
    using get_reviews_latest_ten [of "sample_world []"] f n v by simp
qed

section \<open>Error responses\<close>

lemma get_campaigns_eq:
  "get_campaigns w =
     (case fault_at w 0 of
        Some e \<Rightarrow> (json 500 (Error (e_message e)), after_call SelectCampaigns w)
      | None \<Rightarrow>
          (json 200 (CampaignList (order_desc c_created_at (campaigns w))),
           after_call SelectCampaigns w))"
  by (simp add: get_campaigns_def select_campaigns_def from_table_eq split: option.splits)

lemma get_campaign_by_id_eq:
  "get_campaign_by_id i w =
     (case fault_at w 0 of
        Some e \<Rightarrow> (json 404 (Error ''Campaign not found''), after_call (SelectCampaignById i) w)
      | None \<Rightarrow>
          (case single (filter (\<lambda>c. c_id c = i) (campaigns w)) of
             Inl e \<Rightarrow> json 404 (Error ''Campaign not found'')
           | Inr c \<Rightarrow> json 200 (CampaignBody c),
           after_call (SelectCampaignById i) w))"
  by (simp add: get_campaign_by_id_def select_campaign_by_id_def from_table_eq
      split: option.splits sum.splits)

lemma get_auth_user_authenticated:
  assumes "authenticated provider authHeader uid"
  shows "fst (get_auth_user provider authHeader w) =
           (case fault_at w 0 of
              Some e \<Rightarrow> json 404 (Error ''User not found'')
            | None \<Rightarrow>
                (case single (filter (\<lambda>u. u_id u = uid) (users w)) of
                   Inl e \<Rightarrow> json 404 (Error ''User not found'')
                 | Inr u \<Rightarrow> json 200 (UserBody u)))"
  using assms
  by (auto simp: authenticated_def get_auth_user_def auth_getUser_def token_of_def
        select_user_by_id_def from_table_eq Let_def
      split: option.splits sum.splits)

lemma store_error_authenticated:
  assumes "authenticated provider authHeader uid" and "fault_at w 0 = Some e"
  shows "fst (get_donations_my provider authHeader w) = json 500 (Error (e_message e))"
    and "fst (post_campaigns provider rnd authHeader b w) = json 500 (Error (e_message e))"
    and "fst (post_ngo_verifications provider authHeader b w) = json 500 (Error (e_message e))"
  using assms
  by (auto simp: authenticated_def auth_getUser_def token_of_def Let_def from_table_eq
        get_donations_my_def select_donations_by_donor_def
        post_campaigns_def insert_campaign_def
        post_ngo_verifications_def insert_verification_def
      split: option.splits)

lemma patch_store_error:
  "fault_at w 0 = Some e \<Longrightarrow>
     fst (patch_admin_ngo_verifications i flag w) = json 500 (Error (e_message e))"
  by (simp add: patch_admin_ngo_verifications_def update_verification_def from_table_eq)

lemma find_route_open:
  "find_route routes GET [''api'', ''campaigns''] = Some (CampaignsIndex, [])"
  "find_route routes GET [''api'', ''reviews''] = Some (ReviewsIndex, [])"
  "find_route routes POST [''api'', ''donations''] = Some (DonationsCreate, [])"
  "i \<noteq> [] \<Longrightarrow> find_route routes GET [''api'', ''campaigns'', i] = Some (CampaignById, [i])"
  "i \<noteq> [] \<Longrightarrow>
     find_route routes PATCH [''api'', ''admin'', ''ngo-verifications'', i] =
       Some (AdminNgoVerificationPatch, [i])"
  by (simp_all add: routes_def)

lemma find_route_protected:
  "find_route routes GET [''api'', ''auth'', ''user''] = Some (AuthUser, [])"
  "find_route routes POST [''api'', ''campaigns''] = Some (CampaignsCreate, [])"
  "find_route routes GET [''api'', ''donations'', ''my''] = Some (DonationsMy, [])"
  "find_route routes GET [''api'', ''ngo-verifications'', ''my''] = Some (NgoVerificationsMy, [])"
  "find_route routes POST [''api'', ''ngo-verifications''] = Some (NgoVerificationsCreate, [])"
  by (simp_all add: routes_def)

lemma answer_open:
  "answer provider rnd js_add GET [''api'', ''campaigns''] req w = Some (fst (get_campaigns w))"
  "answer provider rnd js_add GET [''api'', ''reviews''] req w = Some (fst (get_reviews w))"
  "answer provider rnd js_add POST [''api'', ''donations''] req w =
     Some (fst (post_donations provider js_add (authorization req) (campaignId req)
                  (req_amount req) (tipAmount req) (donorName req) w))"
  "i \<noteq> [] \<Longrightarrow>
     answer provider rnd js_add GET [''api'', ''campaigns'', i] req w =
       Some (fst (get_campaign_by_id i w))"
  "i \<noteq> [] \<Longrightarrow>
     answer provider rnd js_add PATCH [''api'', ''admin'', ''ngo-verifications'', i] req w =
       Some (fst (patch_admin_ngo_verifications i (verified req) w))"
  by (simp_all add: answer_def handle_def find_route_open)

lemma answer_protected:
  "answer provider rnd js_add GET [''api'', ''auth'', ''user''] req w =
     Some (fst (get_auth_user provider (authorization req) w))"
  "answer provider rnd js_add POST [''api'', ''campaigns''] req w =
     Some (fst (post_campaigns provider rnd (authorization req) (req_text req) w))"
  "answer provider rnd js_add GET [''api'', ''donations'', ''my''] req w =
     Some (fst (get_donations_my provider (authorization req) w))"
  "answer provider rnd js_add GET [''api'', ''ngo-verifications'', ''my''] req w =
     Some (fst (get_ngo_verifications_my provider (authorization req) w))"
  "answer provider rnd js_add POST [''api'', ''ngo-verifications''] req w =
     Some (fst (post_ngo_verifications provider (authorization req) (req_text req) w))"
  by (simp_all add: answer_def handle_def find_route_protected)

lemma protected_handlers_unauthorized:
  assumes "unauthenticated provider authHeader"
  shows "get_auth_user provider authHeader w =
           (unauthorized, w\<lparr>calls := calls w @ auth_calls authHeader\<rparr>)"
    and "get_campaigns_my provider authHeader w =
           (unauthorized, w\<lparr>calls := calls w @ auth_calls authHeader\<rparr>)"
    and "post_campaigns provider rnd authHeader b w =
           (unauthorized, w\<lparr>calls := calls w @ auth_calls authHeader\<rparr>)"
    and "get_donations_my provider authHeader w =
           (unauthorized, w\<lparr>calls := calls w @ auth_calls authHeader\<rparr>)"
    and "get_ngo_verifications_my provider authHeader w =
           (unauthorized, w\<lparr>calls := calls w @ auth_calls authHeader\<rparr>)"
    and "post_ngo_verifications provider authHeader b w =
           (unauthorized, w\<lparr>calls := calls w @ auth_calls authHeader\<rparr>)"
  using assms
  by (auto simp: unauthenticated_def rejected_def auth_calls_def auth_getUser_def token_of_def
        get_auth_user_def get_campaigns_my_def post_campaigns_def get_donations_my_def
        get_ngo_verifications_my_def post_ngo_verifications_def Let_def
      split: option.splits)

text \<open>
  C7 (as amended). The error pattern, route by route. A failing store call is answered
  with 500 and the store's message on \<^verbatim>\<open>GET /api/campaigns\<close>, \<^verbatim>\<open>GET /api/reviews\<close>,
  the insert of \<^verbatim>\<open>POST /api/donations\<close>, the update of
  \<^verbatim>\<open>PATCH /api/admin/ngo-verifications/:id\<close> and, for an authenticated request, on
  \<^verbatim>\<open>GET /api/donations/my\<close>, \<^verbatim>\<open>POST /api/campaigns\<close> and
  \<^verbatim>\<open>POST /api/ngo-verifications\<close>. A missing or rejected token is answered with 401
  on \<^verbatim>\<open>GET /api/auth/user\<close>, \<^verbatim>\<open>POST /api/campaigns\<close>, \<^verbatim>\<open>GET /api/donations/my\<close>,
  \<^verbatim>\<open>GET /api/ngo-verifications/my\<close> and \<^verbatim>\<open>POST /api/ngo-verifications\<close>. The two
  single-row lookups do not pass a store error on: \<^verbatim>\<open>GET /api/campaigns/:id\<close> answers
  404 with \<open>Campaign not found\<close> and, for an authenticated request,
  \<^verbatim>\<open>GET /api/auth/user\<close> answers 404 with \<open>User not found\<close>, both when the store
  fails and when no row has the id; neither ever answers 500.
\<close>

theorem handler_error_responses:
  "(fault_at w 0 = Some e \<longrightarrow>
      answer provider rnd js_add GET [''api'', ''campaigns''] req w =
        Some (json 500 (Error (e_message e))) \<and>
      answer provider rnd js_add GET [''api'', ''reviews''] req w =
        Some (json 500 (Error (e_message e))) \<and>
      answer provider rnd js_add POST [''api'', ''donations''] req w =
        Some (json 500 (Error (e_message e))) \<and>
      (i \<noteq> [] \<longrightarrow>
         answer provider rnd js_add PATCH [''api'', ''admin'', ''ngo-verifications'', i] req w =
           Some (json 500 (Error (e_message e))) \<and>
         answer provider rnd js_add GET [''api'', ''campaigns'', i] req w =
           Some (json 404 (Error ''Campaign not found''))) \<and>
      (authenticated provider (authorization req) uid \<longrightarrow>
         answer provider rnd js_add GET [''api'', ''donations'', ''my''] req w =
           Some (json 500 (Error (e_message e))) \<and>
         answer provider rnd js_add POST [''api'', ''campaigns''] req w =
           Some (json 500 (Error (e_message e))) \<and>
         answer provider rnd js_add POST [''api'', ''ngo-verifications''] req w =
           Some (json 500 (Error (e_message e))) \<and>
         answer provider rnd js_add GET [''api'', ''auth'', ''user''] req w =
           Some (json 404 (Error ''User not found'')))) \<and>
   (unauthenticated provider (authorization req) \<longrightarrow>
      answer provider rnd js_add GET [''api'', ''auth'', ''user''] req w =
        Some (json 401 (Error ''Unauthorized'')) \<and>
      answer provider rnd js_add POST [''api'', ''campaigns''] req w =
        Some (json 401 (Error ''Unauthorized'')) \<and>
      answer provider rnd js_add GET [''api'', ''donations'', ''my''] req w =
        Some (json 401 (Error ''Unauthorized'')) \<and>
      answer provider rnd js_add GET [''api'', ''ngo-verifications'', ''my''] req w =
        Some (json 401 (Error ''Unauthorized'')) \<and>
      answer provider rnd js_add POST [''api'', ''ngo-verifications''] req w =
        Some (json 401 (Error ''Unauthorized''))) \<and>
   (fault_at w 0 = None \<and> i \<noteq> [] \<and> filter (\<lambda>c. c_id c = i) (campaigns w) = [] \<longrightarrow>
      answer provider rnd js_add GET [''api'', ''campaigns'', i] req w =
        Some (json 404 (Error ''Campaign not found''))) \<and>
   (fault_at w 0 = None \<and> authenticated provider (authorization req) uid \<and>
    filter (\<lambda>u. u_id u = uid) (users w) = [] \<longrightarrow>
      answer provider rnd js_add GET [''api'', ''auth'', ''user''] req w =
        Some (json 404 (Error ''User not found''))) \<and>
   (i \<noteq> [] \<longrightarrow>
      map_option status (answer provider rnd js_add GET [''api'', ''campaigns'', i] req w) \<noteq>
        Some 500) \<and>
   (authenticated provider (authorization req) uid \<longrightarrow>
      map_option status (answer provider rnd js_add GET [''api'', ''auth'', ''user''] req w) \<noteq>
        Some 500)"
proof (intro conjI impI)
  assume f: "fault_at w 0 = Some e"
  show "answer provider rnd js_add GET [''api'', ''campaigns''] req w =
          Some (json 500 (Error (e_message e)))"
    by (simp add: answer_open get_campaigns_eq f)
  show "answer provider rnd js_add GET [''api'', ''reviews''] req w =
          Some (json 500 (Error (e_message e)))"
    by (simp add: answer_open get_reviews_eq f)
  show "answer provider rnd js_add POST [''api'', ''donations''] req w =
          Some (json 500 (Error (e_message e)))"
    by (simp add: answer_open post_donations_insert_fails(1) [OF f])
  {
    assume i: "i \<noteq> []"
    show "answer provider rnd js_add PATCH [''api'', ''admin'', ''ngo-verifications'', i] req w =
            Some (json 500 (Error (e_message e)))"
      by (simp add: answer_open i patch_store_error [OF f])
    show "answer provider rnd js_add GET [''api'', ''campaigns'', i] req w =
            Some (json 404 (Error ''Campaign not found''))"
      by (simp add: answer_open i get_campaign_by_id_eq f)
  }
  {
    assume a: "authenticated provider (authorization req) uid"
    show "answer provider rnd js_add GET [''api'', ''donations'', ''my''] req w =
            Some (json 500 (Error (e_message e)))"
      by (simp add: answer_protected store_error_authenticated(1) [OF a f])
    show "answer provider rnd js_add POST [''api'', ''campaigns''] req w =
            Some (json 500 (Error (e_message e)))"
      by (simp add: answer_protected store_error_authenticated(2) [OF a f])
    show "answer provider rnd js_add POST [''api'', ''ngo-verifications''] req w =
            Some (json 500 (Error (e_message e)))"
      by (simp add: answer_protected store_error_authenticated(3) [OF a f])
    show "answer provider rnd js_add GET [''api'', ''auth'', ''user''] req w =
            Some (json 404 (Error ''User not found''))"
      by (simp add: answer_protected get_auth_user_authenticated [OF a] f)
  }
next
  assume u: "unauthenticated provider (authorization req)"
  show "answer provider rnd js_add GET [''api'', ''auth'', ''user''] req w =
          Some (json 401 (Error ''Unauthorized''))"
    and "answer provider rnd js_add POST [''api'', ''campaigns''] req w =
          Some (json 401 (Error ''Unauthorized''))"
    and "answer provider rnd js_add GET [''api'', ''donations'', ''my''] req w =
          Some (json 401 (Error ''Unauthorized''))"
    and "answer provider rnd js_add GET [''api'', ''ngo-verifications'', ''my''] req w =
          Some (json 401 (Error ''Unauthorized''))"
    and "answer provider rnd js_add POST [''api'', ''ngo-verifications''] req w =
          Some (json 401 (Error ''Unauthorized''))"
    by (simp_all add: answer_protected protected_handlers_unauthorized [OF u] unauthorized_def)
next
  assume "fault_at w 0 = None \<and> i \<noteq> [] \<and> filter (\<lambda>c. c_id c = i) (campaigns w) = []"
  then show "answer provider rnd js_add GET [''api'', ''campaigns'', i] req w =
               Some (json 404 (Error ''Campaign not found''))"
    by (simp add: answer_open get_campaign_by_id_eq)
next
  assume h: "fault_at w 0 = None \<and> authenticated provider (authorization req) uid \<and>
             filter (\<lambda>u. u_id u = uid) (users w) = []"
  then have a: "authenticated provider (authorization req) uid"
    by simp
  show "answer provider rnd js_add GET [''api'', ''auth'', ''user''] req w =
          Some (json 404 (Error ''User not found''))"
    using h by (simp add: answer_protected get_auth_user_authenticated [OF a])
next
  assume "i \<noteq> []"
  then show "map_option status (answer provider rnd js_add GET [''api'', ''campaigns'', i] req w) \<noteq>
               Some 500"
    by (simp add: answer_open get_campaign_by_id_eq json_def split: option.splits sum.splits)
next
  assume a: "authenticated provider (authorization req) uid"
  show "map_option status (answer provider rnd js_add GET [''api'', ''auth'', ''user''] req w) \<noteq>
          Some 500"
    by (simp add: answer_protected get_auth_user_authenticated [OF a] json_def
        split: option.splits sum.splits)
qed

theorem handler_error_responses_witness:
  "fault_at (sample_world [Some sample_error]) 0 = Some sample_error \<and>
   authenticated sample_provider (Some ''Bearer good'') ''u1'' \<and>
   answer sample_provider sample_rnd sample_plus GET [''api'', ''campaigns'']
     (sample_request GET [] (Some ''Bearer good'')) (sample_world [Some sample_error]) =
     Some (json 500 (Error ''connection lost'')) \<and>
   answer sample_provider sample_rnd sample_plus GET [''api'', ''donations'', ''my'']
     (sample_request GET [] (Some ''Bearer good'')) (sample_world [Some sample_error]) =
     Some (json 500 (Error ''connection lost'')) \<and>
   answer sample_provider sample_rnd sample_plus GET [''api'', ''campaigns'', ''c1'']
     (sample_request GET [] (Some ''Bearer good'')) (sample_world [Some sample_error]) =
     Some (json 404 (Error ''Campaign not found'')) \<and>
   answer sample_provider sample_rnd sample_plus GET [''api'', ''auth'', ''user'']
     (sample_request GET [] (Some ''Bearer good'')) (sample_world [Some sample_error]) =
     Some (json 404 (Error ''User not found'')) \<and>
   unauthenticated sample_provider (Some ''Bearer stale'') \<and>
   answer sample_provider sample_rnd sample_plus GET [''api'', ''donations'', ''my'']
     (sample_request GET [] (Some ''Bearer stale'')) (sample_world []) =
     Some (json 401 (Error ''Unauthorized'')) \<and>
   fault_at (sample_world []) 0 = None \<and>
   map c_id (campaigns (sample_world [])) = [''c1'', ''c2''] \<and>
   answer sample_provider sample_rnd sample_plus GET [''api'', ''campaigns'', ''c9'']
     (sample_request GET [] (Some ''Bearer stale'')) (sample_world []) =
     Some (json 404 (Error ''Campaign not found''))"
proof -
  have f: "fault_at (sample_world [Some sample_error]) 0 = Some sample_error"
      "fault_at (sample_world []) 0 = None"
    by simp_all
  have a: "authenticated sample_provider (Some ''Bearer good'') ''u1''"
    by (simp add: authenticated_def token_of_def sample_provider_def)
  have u: "unauthenticated sample_provider (Some ''Bearer stale'')"
    by (simp add: unauthenticated_def rejected_def token_of_def sample_provider_def)
  have h: "authorization (sample_request GET [] x) = x" for x
    by (simp add: sample_request_def)
  have c: "map c_id (campaigns (sample_world [])) = [''c1'', ''c2'']"
      "filter (\<lambda>c. c_id c = ''c9'') (campaigns (sample_world [])) = []"
    by (simp_all add: sample_world_def)
  have m: "e_message sample_error = ''connection lost''"
    by (simp add: sample_error_def)
  show ?thesis
    using handler_error_responses
            [of "sample_world [Some sample_error]" sample_error sample_provider sample_rnd
                sample_plus "sample_request GET [] (Some ''Bearer good'')" "''c1''" "''u1''"]
          handler_error_responses
            [of "sample_world []" sample_error sample_provider sample_rnd sample_plus
                "sample_request GET [] (Some ''Bearer stale'')" "''c9''" "''u1''"]
          f a u c
    by (simp add: m h)
qed

text \<open>
  C7 as stated fails for \<^verbatim>\<open>GET /api/campaigns/:id\<close>: the campaign \<open>c1\<close> exists, the
  store fails with the message \<open>connection lost\<close>, and the answer is 404 with
  \<open>Campaign not found\<close>, not 500 with the store's message.
\<close>

theorem handler_error_responses_counterexample:
  "map c_id (campaigns (sample_world [Some sample_error])) = [''c1'', ''c2''] \<and>
   fault_at (sample_world [Some sample_error]) 0 = Some sample_error \<and>
   e_message sample_error = ''connection lost'' \<and>
   answer sample_provider sample_rnd sample_plus GET [''api'', ''campaigns'', ''c1'']
     (sample_request GET [] None) (sample_world [Some sample_error]) =
     Some (json 404 (Error ''Campaign not found'')) \<and>
   fst (get_campaign_by_id ''c1'' (sample_world [Some sample_error])) =
     json 404 (Error ''Campaign not found'') \<and>
   fst (get_campaign_by_id ''c1'' (sample_world [Some sample_error])) \<noteq>
     json 500 (Error ''connection lost'')"
  by (simp add: answer_open get_campaign_by_id_eq json_def)
     (simp add: sample_world_def sample_error_def)

section \<open>Protected routes\<close>

lemma auth_calls_no_write: "list_all (\<lambda>c. \<not> is_write c) (auth_calls authHeader)"
  by (simp add: auth_calls_def split: option.splits)

lemma find_route_campaigns_my:
  "find_route routes GET [''api'', ''campaigns'', ''my''] = Some (CampaignById, [''my''])"
  by (simp add: routes_def)

lemma reachable_protected_routes:
  assumes "unauthenticated provider (authorization req)"
  shows "handle provider rnd js_add (req\<lparr>req_method := GET, req_path := [''api'', ''auth'', ''user'']\<rparr>) w =
           Some (unauthorized, w\<lparr>calls := calls w @ auth_calls (authorization req)\<rparr>)"
    and "handle provider rnd js_add (req\<lparr>req_method := POST, req_path := [''api'', ''campaigns'']\<rparr>) w =
           Some (unauthorized, w\<lparr>calls := calls w @ auth_calls (authorization req)\<rparr>)"
    and "handle provider rnd js_add (req\<lparr>req_method := GET, req_path := [''api'', ''donations'', ''my'']\<rparr>) w =
           Some (unauthorized, w\<lparr>calls := calls w @ auth_calls (authorization req)\<rparr>)"
    and "handle provider rnd js_add
           (req\<lparr>req_method := GET, req_path := [''api'', ''ngo-verifications'', ''my'']\<rparr>) w =
           Some (unauthorized, w\<lparr>calls := calls w @ auth_calls (authorization req)\<rparr>)"
    and "handle provider rnd js_add
           (req\<lparr>req_method := POST, req_path := [''api'', ''ngo-verifications'']\<rparr>) w =
           Some (unauthorized, w\<lparr>calls := calls w @ auth_calls (authorization req)\<rparr>)"
  using assms
  by (simp_all add: handle_def find_route_protected protected_handlers_unauthorized)

lemma campaigns_my_never_reached:
  "handle provider rnd js_add (req\<lparr>req_method := GET, req_path := [''api'', ''campaigns'', ''my'']\<rparr>) w =
     Some (get_campaign_by_id ''my'' w)"
  by (simp add: handle_def find_route_campaigns_my)

text \<open>
  C6 at \<^verbatim>\<open>GET /api/campaigns/my\<close> without a header. The route
  \<^verbatim>\<open>/api/campaigns/:id\<close> is registered before \<^verbatim>\<open>/api/campaigns/my\<close> and matches
  its path with \<open>id = my\<close>, so the request is served by the handler of a single
  campaign: it reads the campaigns for the id \<open>my\<close> and answers 404, where the handler
  written for the path would have answered 401 without touching the store.
\<close>

theorem campaigns_my_without_header:
  "handle sample_provider sample_rnd sample_plus
     (sample_request GET [''api'', ''campaigns'', ''my''] None) (sample_world []) =
     Some (get_campaign_by_id ''my'' (sample_world [])) \<and>
   fst (get_campaign_by_id ''my'' (sample_world [])) = json 404 (Error ''Campaign not found'') \<and>
   calls (snd (get_campaign_by_id ''my'' (sample_world []))) = [SelectCampaignById ''my''] \<and>
   get_campaigns_my sample_provider None (sample_world []) =
     (json 401 (Error ''Unauthorized''), sample_world [])"
proof -
  have h: "handle sample_provider sample_rnd sample_plus
             (sample_request GET [''api'', ''campaigns'', ''my''] None) (sample_world []) =
           Some (get_campaign_by_id ''my'' (sample_world []))"
    by (simp add: handle_def find_route_campaigns_my sample_request_def)
  have r: "fst (get_campaign_by_id ''my'' (sample_world [])) =
             json 404 (Error ''Campaign not found'')"
      "calls (snd (get_campaign_by_id ''my'' (sample_world []))) = [SelectCampaignById ''my'']"
    by (simp_all add: get_campaign_by_id_eq) (simp_all add: sample_world_def)
  have m: "get_campaigns_my sample_provider None (sample_world []) =
             (json 401 (Error ''Unauthorized''), sample_world [])"
    by (simp add: get_campaigns_my_def unauthorized_def)
  from h r m show ?thesis by simp
qed

end
